theory Spec2Isabelle
  imports Complex_Main
begin

section \<open>Python values, exceptions and the random source\<close>

text \<open>
  The generators are dynamically typed: a cell of a table is \<open>None\<close>, a NaN (what a
  null becomes once a table has been through a CSV file), an integer, a float or a
  string. A float cell holds the exact rational value of the float; \<open>round\<close> and
  \<open>uniform\<close> inside the field generators are the exact operations. The one float
  product that decides a row count, \<open>n_rows * duplicate_ratio\<close>, is rounded as binary64
  arithmetic rounds it (\<open>round_to_double\<close> below).
\<close>

datatype pyval = PNone | PNaN | PInt int | PFloat rat | PStr string

datatype pyerr =
    TypeError
  | ValueError string
  | OverflowError string
  | KeyError string
  | FileNotFoundError string

text \<open>
  The Mersenne Twister of \<open>random\<close> and of \<open>numpy.random\<close> is library code. A generator
  state is a source of raw words and a position in it; every primitive consumes one
  word. Seeding installs the source that the library derives from the seed, taken as a
  parameter (\<open>py_seed\<close>, \<open>np_seed\<close> below).
\<close>

datatype rng = Rng (src: "nat \<Rightarrow> nat") (pos: nat)

definition next_raw :: "rng \<Rightarrow> nat \<times> rng" where
  "next_raw g = (src g (pos g), Rng (src g) (Suc (pos g)))"

definition random_random :: "rng \<Rightarrow> rat \<times> rng" where
  "random_random g =
     (case next_raw g of (r, g1) \<Rightarrow> (rat_of_nat (r mod 9007199254740992) / 9007199254740992, g1))"

definition random_uniform :: "rat \<Rightarrow> rat \<Rightarrow> rng \<Rightarrow> rat \<times> rng" where
  "random_uniform a b g = (case random_random g of (u, g1) \<Rightarrow> (a + (b - a) * u, g1))"

definition random_randint :: "int \<Rightarrow> int \<Rightarrow> rng \<Rightarrow> int \<times> rng" where
  "random_randint a b g =
     (case next_raw g of (r, g1) \<Rightarrow> (a + int (r mod nat (b - a + 1)), g1))"

definition random_choice :: "'a list \<Rightarrow> rng \<Rightarrow> 'a \<times> rng" where
  "random_choice xs g = (case next_raw g of (r, g1) \<Rightarrow> (xs ! (r mod length xs), g1))"

text \<open>\<open>round(x, 2)\<close>: to the nearest hundredth, a tie to the even neighbour.\<close>

definition round_half_even :: "rat \<Rightarrow> int" where
  "round_half_even x =
     (let f = \<lfloor>x\<rfloor>; d = x - of_int f
      in if d < 1 / 2 then f else if 1 / 2 < d then f + 1 else if even f then f else f + 1)"

definition py_round2 :: "rat \<Rightarrow> rat" where
  "py_round2 x = of_int (round_half_even (x * 100)) / 100"

text \<open>\<open>int(x)\<close> on a float truncates towards zero.\<close>

definition py_trunc :: "rat \<Rightarrow> int" where
  "py_trunc x = (if 0 \<le> x then \<lfloor>x\<rfloor> else \<lceil>x\<rceil>)"

text \<open>
  Binary64 rounding. \<open>float_exponent x\<close> is the binary exponent of a non-zero \<open>x\<close>, the
  \<open>e\<close> with \<open>2 ^ e \<le> |x| < 2 ^ (e + 1)\<close>, searched over 1100 doublings or halvings,
  which covers every exponent a double has. \<open>round_to_double\<close> rounds to 53 significant
  bits (to a multiple of \<open>2 ^ - 1074\<close> in the subnormal range), a tie to the even
  neighbour. A result of magnitude \<open>2 ^ 1024\<close> or more is an overflow: the conversion
  of an integer raises, a product is an infinity (\<open>None\<close>).
\<close>

definition pow2 :: "int \<Rightarrow> rat" where
  "pow2 e = (if 0 \<le> e then 2 ^ nat e else 1 / 2 ^ nat (- e))"

fun exp_up :: "nat \<Rightarrow> rat \<Rightarrow> int" where
  "exp_up 0 x = 0"
| "exp_up (Suc k) x = (if x < 2 then 0 else exp_up k (x / 2) + 1)"

fun exp_down :: "nat \<Rightarrow> rat \<Rightarrow> int" where
  "exp_down 0 x = 0"
| "exp_down (Suc k) x = (if 1 \<le> x then 0 else exp_down k (x * 2) - 1)"

definition float_exponent :: "rat \<Rightarrow> int" where
  "float_exponent x = (if 1 \<le> \<bar>x\<bar> then exp_up 1100 \<bar>x\<bar> else exp_down 1100 \<bar>x\<bar>)"

definition round_to_double :: "rat \<Rightarrow> rat" where
  "round_to_double x =
     (if x = 0 then 0
      else let e = max (float_exponent x - 52) (- 1074)
           in of_int (round_half_even (x / pow2 e)) * pow2 e)"

definition float_of_int :: "int \<Rightarrow> pyerr + rat" where
  "float_of_int n =
     (let x = round_to_double (of_int n)
      in if pow2 1024 \<le> \<bar>x\<bar> then Inl (OverflowError ''int too large to convert to float'')
         else Inr x)"

definition float_mul :: "rat \<Rightarrow> rat \<Rightarrow> rat option" where
  "float_mul x y =
     (let p = round_to_double (x * y) in if pow2 1024 \<le> \<bar>p\<bar> then None else Some p)"

text \<open>
  Ordering comparisons of a cell with a number: \<open>None\<close> and strings raise
  \<open>TypeError\<close>, a NaN compares false.
\<close>

fun py_gt :: "pyval \<Rightarrow> rat \<Rightarrow> pyerr + bool" where
  "py_gt (PInt i) c = Inr (c < of_int i)"
| "py_gt (PFloat x) c = Inr (c < x)"
| "py_gt PNaN c = Inr False"
| "py_gt PNone c = Inl TypeError"
| "py_gt (PStr s) c = Inl TypeError"

fun py_lt :: "pyval \<Rightarrow> rat \<Rightarrow> pyerr + bool" where
  "py_lt (PInt i) c = Inr (of_int i < c)"
| "py_lt (PFloat x) c = Inr (x < c)"
| "py_lt PNaN c = Inr False"
| "py_lt PNone c = Inl TypeError"
| "py_lt (PStr s) c = Inl TypeError"

fun py_ge :: "pyval \<Rightarrow> rat \<Rightarrow> pyerr + bool" where
  "py_ge (PInt i) c = Inr (c \<le> of_int i)"
| "py_ge (PFloat x) c = Inr (c \<le> x)"
| "py_ge PNaN c = Inr False"
| "py_ge PNone c = Inl TypeError"
| "py_ge (PStr s) c = Inl TypeError"

fun py_le :: "pyval \<Rightarrow> rat \<Rightarrow> pyerr + bool" where
  "py_le (PInt i) c = Inr (of_int i \<le> c)"
| "py_le (PFloat x) c = Inr (x \<le> c)"
| "py_le PNaN c = Inr False"
| "py_le PNone c = Inl TypeError"
| "py_le (PStr s) c = Inl TypeError"

text \<open>\<open>v + n\<close> for an integer \<open>n\<close>, and \<open>int(v)\<close>.\<close>

fun py_add_int :: "pyval \<Rightarrow> int \<Rightarrow> pyerr + pyval" where
  "py_add_int (PInt i) n = Inr (PInt (i + n))"
| "py_add_int (PFloat x) n = Inr (PFloat (x + of_int n))"
| "py_add_int PNaN n = Inr PNaN"
| "py_add_int PNone n = Inl TypeError"
| "py_add_int (PStr s) n = Inl TypeError"

fun py_int :: "pyval \<Rightarrow> pyerr + int" where
  "py_int (PInt i) = Inr i"
| "py_int (PFloat x) = Inr (py_trunc x)"
| "py_int PNaN = Inl (ValueError ''cannot convert float NaN to integer'')"
| "py_int PNone = Inl TypeError"
| "py_int (PStr s) = Inl TypeError"

text \<open>
  \<open>pd.to_datetime(v, errors='coerce')\<close> is library code: it raises, gives \<open>NaT\<close>, or
  gives a date of which the generators read the month and the hour. Without
  \<open>errors='coerce'\<close> (\<open>to_datetime_strict\<close>, used on a whole column before the
  merge) it takes the cells of the column together, since the format it reads them in
  may depend on the other cells, and gives their canonical timestamps, one per cell,
  or \<open>None\<close> here when it raises.
  \<open>strftime\<close> renders the base date plus a number of hours in a format.
\<close>

datatype dt_result = DtRaises | NaT | Dt (dt_month: nat) (dt_hour: nat)

record pylib =
  py_seed :: "nat \<Rightarrow> nat \<Rightarrow> nat"
  np_seed :: "nat \<Rightarrow> nat \<Rightarrow> nat"
  to_datetime :: "pyval \<Rightarrow> dt_result"
  to_datetime_strict :: "pyval list \<Rightarrow> pyval list option"
  strftime :: "string \<Rightarrow> nat \<Rightarrow> string"

text \<open>The two global generators: \<open>random\<close> and \<open>numpy.random\<close>.\<close>

record pystate =
  py_random :: rng
  np_random :: rng

section \<open>Defect injection\<close>

definition maybe_null :: "rat \<Rightarrow> pyval \<Rightarrow> rng \<Rightarrow> pyval \<times> rng" where
  "maybe_null null_ratio v g =
     (case random_random g of (u, g1) \<Rightarrow> (if u < null_ratio then PNone else v, g1))"

definition with_outliers :: "rat \<Rightarrow> pyval \<Rightarrow> rat \<Rightarrow> rat \<Rightarrow> rng \<Rightarrow> pyval \<times> rng" where
  "with_outliers outlier_ratio normal_value outlier_low outlier_high g =
     (case random_random g of (u, g1) \<Rightarrow>
        if u < outlier_ratio then
          (case random_random g1 of (u2, g2) \<Rightarrow>
             if u2 < 1 / 2 then
               (case random_uniform (outlier_low - 25) outlier_low g2 of (x, g3) \<Rightarrow> (PFloat x, g3))
             else
               (case random_uniform outlier_high (outlier_high + 25) g2 of (x, g3) \<Rightarrow> (PFloat x, g3)))
        else (normal_value, g1))"

section \<open>Tables and duplicate sampling\<close>

text \<open>
  \<open>df.sample(k)\<close> draws \<open>k\<close> distinct rows with the numpy generator and raises
  \<open>ValueError\<close> when \<open>k\<close> is negative or exceeds the number of rows.
\<close>

fun choose_rows :: "nat \<Rightarrow> 'a list \<Rightarrow> rng \<Rightarrow> 'a list \<times> rng" where
  "choose_rows 0 pool g = ([], g)"
| "choose_rows (Suc k) pool g =
     (case next_raw g of (r, g1) \<Rightarrow>
        (let j = r mod length pool in
         case choose_rows k (take j pool @ drop (Suc j) pool) g1 of
           (rest, g2) \<Rightarrow> (pool ! j # rest, g2)))"

definition df_sample :: "int \<Rightarrow> 'a list \<Rightarrow> rng \<Rightarrow> pyerr + ('a list \<times> rng)" where
  "df_sample k df g =
     (if k < 0 then Inl (ValueError ''A negative number of rows requested'')
      else if int (length df) < k then
        Inl (ValueError ''Cannot take a larger sample than population'')
      else Inr (choose_rows (nat k) df g))"

text \<open>The number of rows of the table a generator returned, if it returned one.\<close>

definition row_count :: "pyerr + ('a list \<times> 's) \<Rightarrow> nat option" where
  "row_count r = (case r of Inl e \<Rightarrow> None | Inr (t, s) \<Rightarrow> Some (length t))"

definition bind_res :: "pyerr + 'a \<Rightarrow> ('a \<Rightarrow> pyerr + 'b) \<Rightarrow> pyerr + 'b" where
  "bind_res r f = (case r of Inl e \<Rightarrow> Inl e | Inr v \<Rightarrow> f v)"

text \<open>
  \<open>int(n_rows * duplicate_ratio)\<close>: the integer \<open>n_rows\<close> is converted to a float, the
  product is rounded to binary64 and then truncated. \<open>duplicate_ratio\<close> is the exact
  value of the float that was passed. \<open>int\<close> of an infinity raises \<open>OverflowError\<close>.
\<close>

definition dup_count :: "nat \<Rightarrow> rat \<Rightarrow> pyerr + int" where
  "dup_count n_rows duplicate_ratio =
     bind_res (float_of_int (int n_rows))
       (\<lambda>x. case float_mul x duplicate_ratio of
              None \<Rightarrow> Inl (OverflowError ''cannot convert float infinity to integer'')
            | Some p \<Rightarrow> Inr (py_trunc p))"

section \<open>The weather generator (weather_raw.py)\<close>

record weather_row =
  weather_id :: pyval
  date_time :: pyval
  city :: pyval
  season :: pyval
  temperature_c :: pyval
  humidity :: pyval
  rain_mm :: pyval
  weather_condition :: pyval
  wind_speed_kmh :: pyval
  visibility_m :: pyval
  air_pressure_hpa :: pyval

definition generate_datetime :: "pylib \<Rightarrow> rat \<Rightarrow> nat \<Rightarrow> rng \<Rightarrow> pyval \<times> rng" where
  "generate_datetime lib bad_format_ratio index g =
     (case random_random g of (u, g1) \<Rightarrow>
        if u < bad_format_ratio then
          random_choice [PStr ''2099-13-40 25:61'', PStr ''Unknown'', PStr ''TBD''] g1
        else
          random_choice
            [PStr (strftime lib ''%Y-%m-%d %H:%M'' (2 * index)),
             PStr (strftime lib ''%d/%m/%Y %I%p'' (2 * index)),
             PStr (strftime lib ''%Y-%m-%dT%H:%MZ'' (2 * index))] g1)"

definition get_season :: "pylib \<Rightarrow> pyval \<Rightarrow> rng \<Rightarrow> pyval \<times> rng" where
  "get_season lib dt_str g =
     (case to_datetime lib dt_str of
        DtRaises \<Rightarrow> (PNone, g)
      | NaT \<Rightarrow> random_choice [PStr ''Winter'', PStr ''Spring'', PStr ''Summer'', PStr ''Autumn''] g
      | Dt m h \<Rightarrow>
          if m \<in> set [12, 1, 2] then (PStr ''Winter'', g)
          else if m \<in> set [3, 4, 5] then (PStr ''Spring'', g)
          else if m \<in> set [6, 7, 8] then (PStr ''Summer'', g)
          else (PStr ''Autumn'', g))"

definition temperature_by_season :: "pyval \<Rightarrow> rng \<Rightarrow> pyval \<times> rng" where
  "temperature_by_season s g =
     (let (low, high) =
            (if s = PStr ''Winter'' then (-5, 15)
             else if s = PStr ''Spring'' then (5, 20)
             else if s = PStr ''Summer'' then (10, 35)
             else if s = PStr ''Autumn'' then (5, 25)
             else (0, 30))
      in case random_uniform low high g of (x, g1) \<Rightarrow> (PFloat (py_round2 x), g1))"

definition generate_humidity :: "pyval \<Rightarrow> rng \<Rightarrow> pyval \<times> rng" where
  "generate_humidity s g =
     (let (low, high) =
            (if s = PStr ''Winter'' then (40, 90)
             else if s = PStr ''Spring'' then (30, 80)
             else if s = PStr ''Summer'' then (20, 70)
             else if s = PStr ''Autumn'' then (50, 100)
             else (20, 100))
      in case random_randint low high g of (n, g1) \<Rightarrow> (PInt n, g1))"

definition generate_rain :: "pyval \<Rightarrow> rng \<Rightarrow> pyerr + (pyval \<times> rng)" where
  "generate_rain h g =
     (if h = PNone then
        (case random_uniform 0 20 g of (x, g1) \<Rightarrow> Inr (PFloat (py_round2 x), g1))
      else
        bind_res (py_lt h 60) (\<lambda>dry.
          if dry then Inr (PFloat 0, g)
          else
            (case random_random g of (u, g1) \<Rightarrow>
               if 3 / 10 < u then Inr (PFloat 0, g1)
               else
                 bind_res (py_lt h 80) (\<lambda>light.
                   if light then
                     (case random_uniform 1 15 g1 of (x, g2) \<Rightarrow> Inr (PFloat (py_round2 x), g2))
                   else
                     (case random_uniform 10 80 g1 of (x, g2) \<Rightarrow> Inr (PFloat (py_round2 x), g2))))))"

definition generate_weather_condition :: "pyval \<Rightarrow> pyval \<Rightarrow> rng \<Rightarrow> pyerr + (pyval \<times> rng)" where
  "generate_weather_condition rain temp g =
     bind_res
       (if temp \<noteq> PNone then
          bind_res (py_le temp 5) (\<lambda>cold.
            if cold then (case random_random g of (u, g1) \<Rightarrow> Inr (u < 2 / 5, g1))
            else Inr (False, g))
        else Inr (False, g))
       (\<lambda>(snow, g1).
          if snow then Inr (PStr ''Snow'', g1)
          else if rain = PNone then Inr (random_choice [PStr ''Clear'', PStr ''Fog''] g1)
          else
            bind_res (py_ge rain 50) (\<lambda>b50.
              if b50 then
                (case random_random g1 of (u, g2) \<Rightarrow>
                   Inr (if u < 3 / 5 then PStr ''Storm'' else PStr ''Rain'', g2))
              else
                bind_res (py_ge rain 25) (\<lambda>b25.
                  if b25 then Inr (PStr ''Rain'', g1)
                  else
                    bind_res (py_ge rain 10) (\<lambda>b10.
                      if b10 then
                        (case random_random g1 of (u, g2) \<Rightarrow>
                           Inr (if u < 3 / 5 then PStr ''Rain'' else PStr ''Clear'', g2))
                      else
                        bind_res (py_gt rain 0) (\<lambda>b0.
                          if b0 then Inr (random_choice [PStr ''Clear'', PStr ''Fog''] g1)
                          else Inr (PStr ''Clear'', g1))))))"

definition generate_wind_speed :: "pyval \<Rightarrow> rng \<Rightarrow> pyval \<times> rng" where
  "generate_wind_speed wc g =
     (let typical = (\<lambda>g0. case random_uniform 0 80 g0 of (x, g9) \<Rightarrow> (PFloat (py_round2 x), g9))
      in if wc = PStr ''Storm'' then
           (case random_random g of (u, g1) \<Rightarrow>
              if u < 1 / 5 then
                (case random_uniform 100 150 g1 of (x, g2) \<Rightarrow> (PFloat (py_round2 x), g2))
              else
                (case random_random g1 of (u2, g2) \<Rightarrow>
                   if u2 < 3 / 5 then
                     (case random_uniform 50 80 g2 of (x, g3) \<Rightarrow> (PFloat (py_round2 x), g3))
                   else typical g2))
         else typical g)"

definition generate_visibility :: "pyval \<Rightarrow> rng \<Rightarrow> pyval \<times> rng" where
  "generate_visibility wc g =
     (let good = (\<lambda>g0. case random_randint 8000 12000 g0 of (n, g9) \<Rightarrow> (PInt n, g9))
      in case random_random g of (u, g1) \<Rightarrow>
           if u < 3 / 100 then
             random_choice [PStr ''unknown'', PStr ''N/A'', PStr ''error'', PStr ''???''] g1
           else if wc \<in> set [PStr ''Fog'', PStr ''Rain'', PStr ''Storm'', PStr ''Snow''] then
             (case random_random g1 of (u2, g2) \<Rightarrow>
                if u2 < 3 / 20 then
                  (case random_randint 50 1000 g2 of (n, g3) \<Rightarrow> (PInt n, g3))
                else
                  (case random_random g2 of (u3, g3) \<Rightarrow>
                     if u3 < 3 / 5 then
                       (case random_randint 1000 8000 g3 of (n, g4) \<Rightarrow> (PInt n, g4))
                     else good g3))
           else good g1)"

definition generate_air_pressure :: "pyval \<Rightarrow> pyval \<Rightarrow> rng \<Rightarrow> pyerr + (pyval \<times> rng)" where
  "generate_air_pressure wc temp g =
     (let (low, high, g2) =
            (if wc = PStr ''Storm'' then
               (case random_uniform 950 970 g of (l, g1) \<Rightarrow>
                  case random_uniform 980 1000 g1 of (h, g2) \<Rightarrow> (l, h, g2))
             else if wc \<in> set [PStr ''Rain'', PStr ''Snow''] then
               (case random_uniform 960 990 g of (l, g1) \<Rightarrow>
                  case random_uniform 1000 1050 g1 of (h, g2) \<Rightarrow> (l, h, g2))
             else (990, 1030, g))
      in bind_res
           (if temp \<noteq> PNone then
              bind_res (py_gt temp 30) (\<lambda>hot.
                if hot then Inr (low - 10, high - 10)
                else bind_res (py_lt temp 0) (\<lambda>frost.
                  if frost then Inr (low + 10, high + 10) else Inr (low, high)))
            else Inr (low, high))
           (\<lambda>(lo, hi). case random_uniform lo hi g2 of (x, g3) \<Rightarrow> Inr (PFloat (py_round2 x), g3)))"

text \<open>The body of the generation loop, for row index \<open>i\<close>.\<close>

definition generate_weather_row ::
  "pylib \<Rightarrow> rat \<Rightarrow> rat \<Rightarrow> rat \<Rightarrow> nat \<Rightarrow> rng \<Rightarrow> pyerr + (weather_row \<times> rng)" where
  "generate_weather_row lib null_ratio outlier_ratio bad_format_ratio i g0 =
     (case generate_datetime lib bad_format_ratio i g0 of (dt0, g1) \<Rightarrow>
      case maybe_null null_ratio dt0 g1 of (dt, g2) \<Rightarrow>
      case get_season lib dt g2 of (se0, g3) \<Rightarrow>
      case maybe_null null_ratio se0 g3 of (se, g4) \<Rightarrow>
      case temperature_by_season se g4 of (t0, g5) \<Rightarrow>
      case with_outliers outlier_ratio t0 (-30) 60 g5 of (t1, g6) \<Rightarrow>
      case maybe_null null_ratio t1 g6 of (temp, g7) \<Rightarrow>
      case generate_humidity se g7 of (h0, g8) \<Rightarrow>
      case with_outliers outlier_ratio h0 (-10) 150 g8 of (h1, g9) \<Rightarrow>
      case maybe_null null_ratio h1 g9 of (hum, g10) \<Rightarrow>
      bind_res (generate_rain hum g10) (\<lambda>(r0, g11).
      case with_outliers outlier_ratio r0 100 200 g11 of (r1, g12) \<Rightarrow>
      case maybe_null null_ratio r1 g12 of (rain, g13) \<Rightarrow>
      bind_res (generate_weather_condition rain temp g13) (\<lambda>(c0, g14).
      case maybe_null null_ratio c0 g14 of (wc, g15) \<Rightarrow>
      case generate_wind_speed wc g15 of (w0, g16) \<Rightarrow>
      case with_outliers outlier_ratio w0 200 350 g16 of (w1, g17) \<Rightarrow>
      case maybe_null null_ratio w1 g17 of (wind, g18) \<Rightarrow>
      case generate_visibility wc g18 of (v0, g19) \<Rightarrow>
      case with_outliers outlier_ratio v0 50000 120000 g19 of (v1, g20) \<Rightarrow>
      case maybe_null null_ratio v1 g20 of (vis, g21) \<Rightarrow>
      bind_res (generate_air_pressure wc temp g21) (\<lambda>(p0, g22).
      case with_outliers outlier_ratio p0 900 1100 g22 of (p1, g23) \<Rightarrow>
      case maybe_null null_ratio p1 g23 of (pres, g24) \<Rightarrow>
      case maybe_null null_ratio (PInt (5001 + int i)) g24 of (wid, g25) \<Rightarrow>
      case maybe_null null_ratio (PStr ''London'') g25 of (cty, g26) \<Rightarrow>
        Inr (\<lparr>weather_id = wid, date_time = dt, city = cty, season = se,
              temperature_c = temp, humidity = hum, rain_mm = rain,
              weather_condition = wc, wind_speed_kmh = wind, visibility_m = vis,
              air_pressure_hpa = pres\<rparr>, g26)))))"

text \<open>\<open>for i in range(n_rows)\<close>, from index \<open>i\<close> with \<open>k\<close> rows still to generate.\<close>

fun weather_rows ::
  "pylib \<Rightarrow> rat \<Rightarrow> rat \<Rightarrow> rat \<Rightarrow> nat \<Rightarrow> nat \<Rightarrow> rng \<Rightarrow> pyerr + (weather_row list \<times> rng)" where
  "weather_rows lib nr orat bfr i 0 g = Inr ([], g)"
| "weather_rows lib nr orat bfr i (Suc k) g =
     bind_res (generate_weather_row lib nr orat bfr i g) (\<lambda>(r, g1).
       bind_res (weather_rows lib nr orat bfr (Suc i) k g1) (\<lambda>(rs, g2). Inr (r # rs, g2)))"

definition generate_weather_dataset ::
  "pylib \<Rightarrow> nat \<Rightarrow> rat \<Rightarrow> rat \<Rightarrow> rat \<Rightarrow> rat \<Rightarrow> pystate \<Rightarrow> pyerr + (weather_row list \<times> pystate)" where
  "generate_weather_dataset lib n_rows duplicate_ratio null_ratio outlier_ratio bad_format_ratio st =
     (let st1 = st\<lparr>np_random := Rng (np_seed lib 42) 0\<rparr>;
          st2 = st1\<lparr>py_random := Rng (py_seed lib 42) 0\<rparr>
      in bind_res (weather_rows lib null_ratio outlier_ratio bad_format_ratio 0 n_rows (py_random st2))
           (\<lambda>(df, g).
              bind_res (dup_count n_rows duplicate_ratio)
                (\<lambda>k. bind_res (df_sample k df (np_random st2))
                      (\<lambda>(dups, ng). Inr (df @ dups, \<lparr>py_random = g, np_random = ng\<rparr>)))))"

section \<open>The traffic generator (traffic_raw.py)\<close>

record traffic_row =
  traffic_id :: pyval
  date_time :: pyval
  city :: pyval
  area :: pyval
  vehicle_count :: pyval
  road_condition :: pyval
  avg_speed_kmh :: pyval
  congestion_level :: pyval
  accident_count :: pyval
  visibility_m :: pyval

definition generate_area :: "rng \<Rightarrow> pyval \<times> rng" where
  "generate_area g =
     random_choice [PStr ''Camden'', PStr ''Chelsea'', PStr ''Islington'', PStr ''Southwark'',
                    PStr ''Kensington'', PStr ''Westminster'', PStr ''Greenwich''] g"

definition generate_vehicle_count :: "pylib \<Rightarrow> pyval \<Rightarrow> rng \<Rightarrow> pyval \<times> rng" where
  "generate_vehicle_count lib time_str g =
     (case
        (case to_datetime lib time_str of
           DtRaises \<Rightarrow> random_randint 500 3000 g
         | NaT \<Rightarrow> random_randint 100 3000 g
         | Dt m hour \<Rightarrow>
             if (7 \<le> hour \<and> hour \<le> 9) \<or> (16 \<le> hour \<and> hour \<le> 19) then random_randint 2000 5000 g
             else if 0 \<le> hour \<and> hour \<le> 5 then random_randint 0 500 g
             else random_randint 800 2500 g)
      of (n, g1) \<Rightarrow> (PInt n, g1))"

definition generate_road_condition :: "pyval \<Rightarrow> rng \<Rightarrow> pyval \<times> rng" where
  "generate_road_condition wc g =
     (if wc = PStr ''Snow'' then (PStr ''Snowy'', g)
      else if wc \<in> set [PStr ''Rain'', PStr ''Storm''] then (PStr ''Wet'', g)
      else
        (case random_random g of (u, g1) \<Rightarrow>
           if u < 1 / 20 then (PStr ''Damaged'', g1) else (PStr ''Dry'', g1)))"

definition calculate_avg_speed :: "pyval \<Rightarrow> pyval \<Rightarrow> pyval \<Rightarrow> rng \<Rightarrow> pyval \<times> rng" where
  "calculate_avg_speed vc wc rc g =
     (case
        (case
           bind_res (py_gt vc 3000) (\<lambda>b3000.
             if b3000 then Inr (random_uniform 10 30 g)
             else bind_res (py_gt vc 1500) (\<lambda>b1500.
               if b1500 then Inr (random_uniform 30 50 g) else Inr (random_uniform 50 90 g)))
         of Inr r \<Rightarrow> r
          | Inl e \<Rightarrow> random_uniform 60 90 g)
      of (x, g1) \<Rightarrow>
        (let base0 = py_round2 x;
             base1 = (if wc \<in> set [PStr ''Rain'', PStr ''Snow'', PStr ''Storm''] then base0 - 15
                      else if wc = PStr ''Fog'' then base0 - 10 else base0);
             base2 = (if rc = PStr ''Damaged'' then base1 - 20 else base1)
         in case random_uniform (-10) 10 g1 of (j, g2) \<Rightarrow>
              (PFloat (max 3 (py_round2 (base2 + j))), g2)))"

definition determine_congestion :: "pyval \<Rightarrow> pyval \<Rightarrow> pyval" where
  "determine_congestion vc sp =
     (case
        bind_res (py_gt vc 3500) (\<lambda>a.
          bind_res (if a then Inr True else py_lt sp 15) (\<lambda>high.
            if high then Inr (PStr ''High'')
            else
              bind_res (py_gt vc 1500) (\<lambda>b.
                bind_res (if b then Inr True else py_lt sp 35) (\<lambda>medium.
                  if medium then Inr (PStr ''Medium'') else Inr (PStr ''Low'')))))
      of Inr v \<Rightarrow> v
       | Inl e \<Rightarrow> PStr ''Low'')"

definition generate_accidents :: "pyval \<Rightarrow> pyval \<Rightarrow> rng \<Rightarrow> pyval \<times> rng" where
  "generate_accidents wc cl g =
     (let prob0 = (1 / 20 :: rat);
          prob1 = (if wc \<in> set [PStr ''Rain'', PStr ''Storm'', PStr ''Snow'', PStr ''Fog'']
                   then prob0 + 3 / 20 else prob0);
          prob = (if cl = PStr ''High'' then prob1 + 1 / 10 else prob1)
      in case random_random g of (u, g1) \<Rightarrow>
           if u < prob then
             (case random_choice [1, 1, 1, 2, 2, 3] g1 of (n, g2) \<Rightarrow> (PInt n, g2))
           else (PInt 0, g1))"

text \<open>
  The noise is drawn inside the \<open>try\<close> before the addition can raise, so the fallback
  value comes with the generator already advanced.
\<close>

definition get_traffic_visibility :: "pyval \<Rightarrow> rng \<Rightarrow> pyval \<times> rng" where
  "get_traffic_visibility weather_vis_value g =
     (case random_randint (-500) 500 g of (noise, g1) \<Rightarrow>
        (case bind_res (py_add_int weather_vis_value noise) py_int of
           Inr n \<Rightarrow> (PInt (max 0 n), g1)
         | Inl e \<Rightarrow> (PInt 10000, g1)))"

text \<open>The body of the generation loop, for row index \<open>i\<close> and its weather row.\<close>

definition generate_traffic_row ::
  "pylib \<Rightarrow> rat \<Rightarrow> rat \<Rightarrow> weather_row \<Rightarrow> nat \<Rightarrow> rng \<Rightarrow> traffic_row \<times> rng" where
  "generate_traffic_row lib null_ratio outlier_ratio weather_row i g0 =
     (let dt = weather_row.date_time weather_row;
          wc = weather_condition weather_row
      in
      case generate_area g0 of (a0, g1) \<Rightarrow>
      case maybe_null null_ratio a0 g1 of (ar, g2) \<Rightarrow>
      case generate_vehicle_count lib dt g2 of (n0, g3) \<Rightarrow>
      case with_outliers outlier_ratio n0 20000 30000 g3 of (n1, g4) \<Rightarrow>
      case maybe_null null_ratio n1 g4 of (vc, g5) \<Rightarrow>
      case generate_road_condition wc g5 of (r0, g6) \<Rightarrow>
      case maybe_null null_ratio r0 g6 of (rc, g7) \<Rightarrow>
      case calculate_avg_speed vc wc rc g7 of (s0, g8) \<Rightarrow>
      case with_outliers outlier_ratio s0 (-1) 500 g8 of (s1, g9) \<Rightarrow>
      case maybe_null null_ratio s1 g9 of (sp, g10) \<Rightarrow>
      case maybe_null null_ratio (determine_congestion vc sp) g10 of (cl, g11) \<Rightarrow>
      case generate_accidents wc cl g11 of (c0, g12) \<Rightarrow>
      case with_outliers outlier_ratio c0 20 50 g12 of (c1, g13) \<Rightarrow>
      case maybe_null null_ratio c1 g13 of (ac, g14) \<Rightarrow>
      case get_traffic_visibility (weather_row.visibility_m weather_row) g14 of (v0, g15) \<Rightarrow>
      case with_outliers outlier_ratio v0 50000 120000 g15 of (v1, g16) \<Rightarrow>
      case maybe_null null_ratio v1 g16 of (vis, g17) \<Rightarrow>
      case maybe_null null_ratio (PInt (9001 + int i)) g17 of (tid, g18) \<Rightarrow>
      case maybe_null null_ratio (PStr ''London'') g18 of (cty, g19) \<Rightarrow>
        (\<lparr>traffic_id = tid, date_time = dt, city = cty, area = ar, vehicle_count = vc,
          road_condition = rc, avg_speed_kmh = sp, congestion_level = cl,
          accident_count = ac, visibility_m = vis\<rparr>, g19))"

text \<open>\<open>for i in range(len(weather_df))\<close> with \<open>weather_df.iloc[i]\<close>, from index \<open>i\<close>.\<close>

fun traffic_rows ::
  "pylib \<Rightarrow> rat \<Rightarrow> rat \<Rightarrow> weather_row list \<Rightarrow> nat \<Rightarrow> rng \<Rightarrow> traffic_row list \<times> rng" where
  "traffic_rows lib nr orat [] i g = ([], g)"
| "traffic_rows lib nr orat (w # ws) i g =
     (case generate_traffic_row lib nr orat w i g of (r, g1) \<Rightarrow>
      case traffic_rows lib nr orat ws (Suc i) g1 of (rs, g2) \<Rightarrow> (r # rs, g2))"

definition generate_traffic_dataset ::
  "pylib \<Rightarrow> weather_row list \<Rightarrow> nat \<Rightarrow> rat \<Rightarrow> rat \<Rightarrow> rat \<Rightarrow> pystate
     \<Rightarrow> pyerr + (traffic_row list \<times> pystate)" where
  "generate_traffic_dataset lib weather_df n_rows duplicate_ratio null_ratio outlier_ratio st =
     (let st1 = st\<lparr>np_random := Rng (np_seed lib 43) 0\<rparr>;
          st2 = st1\<lparr>py_random := Rng (py_seed lib 43) 0\<rparr>
      in case traffic_rows lib null_ratio outlier_ratio weather_df 0 (py_random st2) of
           (df, g) \<Rightarrow>
             bind_res (dup_count n_rows duplicate_ratio)
               (\<lambda>k. bind_res (df_sample k df (np_random st2))
                     (\<lambda>(dups, ng). Inr (df @ dups, \<lparr>py_random = g, np_random = ng\<rparr>))))"

section \<open>The merge (merge_datasets.py)\<close>

text \<open>
  A data frame is its column names and its rows, each row holding one cell per column.
  The object store maps a path to the frame stored there.
\<close>

record frame =
  columns :: "string list"
  rows :: "pyval list list"

type_synonym store = "string \<Rightarrow> frame option"

datatype message =
    Msg string
  | MergedDataShape nat nat
  | SavingTo string
  | ErrorDuringMerge pyerr

definition read_parquet :: "store \<Rightarrow> string \<Rightarrow> pyerr + frame" where
  "read_parquet st path = (case st path of None \<Rightarrow> Inl (FileNotFoundError path) | Some f \<Rightarrow> Inr f)"

fun col_index :: "string \<Rightarrow> string list \<Rightarrow> nat option" where
  "col_index c [] = None"
| "col_index c (x # xs) = (if x = c then Some 0 else map_option Suc (col_index c xs))"

text \<open>
  \<open>df[c] = pd.to_datetime(df[c])\<close>: a missing column raises, and so does a column that
  the library cannot convert; otherwise every row gets its converted cell.
\<close>

definition convert_datetime :: "pylib \<Rightarrow> string \<Rightarrow> frame \<Rightarrow> pyerr + frame" where
  "convert_datetime lib c df =
     (case col_index c (columns df) of
        None \<Rightarrow> Inl (KeyError c)
      | Some j \<Rightarrow>
          (case to_datetime_strict lib (map (\<lambda>r. r ! j) (rows df)) of
             None \<Rightarrow> Inl (ValueError ''Unknown datetime string format'')
           | Some vs \<Rightarrow> Inr (df\<lparr>rows := map2 (\<lambda>r v. r[j := v]) (rows df) vs\<rparr>)))"

definition rename_column :: "string \<Rightarrow> string \<Rightarrow> frame \<Rightarrow> frame" where
  "rename_column old new df = df\<lparr>columns := map (\<lambda>c. if c = old then new else c) (columns df)\<rparr>"

text \<open>
  \<open>pd.merge(left, right, on=keys, how='inner')\<close>: every pair of a left and a right row
  with equal key cells, in the order of the left rows; the key columns once, and a
  column name the two sides share outside the keys gets the suffix \<open>_x\<close> or \<open>_y\<close>.
\<close>

definition key_of :: "string list \<Rightarrow> string list \<Rightarrow> pyval list \<Rightarrow> pyval list" where
  "key_of cols keys r = map (\<lambda>k. r ! the (col_index k cols)) keys"

definition non_key :: "string list \<Rightarrow> string list \<Rightarrow> 'a list \<Rightarrow> 'a list" where
  "non_key cols keys r = map snd (filter (\<lambda>(c, v). c \<notin> set keys) (zip cols r))"

definition pd_merge_inner :: "frame \<Rightarrow> frame \<Rightarrow> string list \<Rightarrow> pyerr + frame" where
  "pd_merge_inner left right keys =
     (case filter (\<lambda>k. col_index k (columns left) = None \<or> col_index k (columns right) = None) keys of
        k # ks \<Rightarrow> Inl (KeyError k)
      | [] \<Rightarrow>
          (let lc = columns left; rc = columns right;
               rest_l = non_key lc keys lc; rest_r = non_key rc keys rc
           in Inr \<lparr>columns =
                     map (\<lambda>c. if c \<in> set rest_l \<and> c \<in> set rest_r then c @ ''_x'' else c) lc @
                     map (\<lambda>c. if c \<in> set rest_l then c @ ''_y'' else c) rest_r,
                   rows =
                     concat (map (\<lambda>l. map (\<lambda>r. l @ non_key rc keys r)
                                          (filter (\<lambda>r. key_of rc keys r = key_of lc keys l) (rows right)))
                                 (rows left))\<rparr>))"

text \<open>
  The body of the \<open>try\<close> of \<open>merge_data\<close>: the store it leaves, or the exception raised,
  with the lines printed up to there.
\<close>

definition merge_try :: "pylib \<Rightarrow> store \<Rightarrow> (pyerr + store) \<times> message list" where
  "merge_try lib st =
     (let log1 = [Msg ''Reading weather data...''] in
      case read_parquet st ''s3://silver/weather_cleaned.parquet'' of
        Inl e \<Rightarrow> (Inl e, log1)
      | Inr w0 \<Rightarrow>
      let log2 = log1 @ [Msg ''Reading traffic data...''] in
      case read_parquet st ''s3://silver/traffic_cleaned.parquet'' of
        Inl e \<Rightarrow> (Inl e, log2)
      | Inr t0 \<Rightarrow>
      case convert_datetime lib ''date_time'' w0 of
        Inl e \<Rightarrow> (Inl e, log2)
      | Inr w1 \<Rightarrow>
      case convert_datetime lib ''date_time'' t0 of
        Inl e \<Rightarrow> (Inl e, log2)
      | Inr t1 \<Rightarrow>
      let w2 = rename_column ''visibility_m'' ''visibility_weather'' w1;
          t2 = rename_column ''visibility_m'' ''visibility_traffic'' t1;
          log3 = log2 @ [Msg ''Merging datasets...'']
      in
      case pd_merge_inner t2 w2 [''date_time'', ''city''] of
        Inl e \<Rightarrow> (Inl e, log3)
      | Inr merged_df \<Rightarrow>
      let log4 = log3 @ [MergedDataShape (length (rows merged_df)) (length (columns merged_df))] in
      if length (rows merged_df) = 0 then
        (Inl (ValueError ''Merge resulted in 0 rows! Check date_time formats.''), log4)
      else
        (Inr (st(''s3://gold/merged_data/merged_data.parquet'' \<mapsto> merged_df)),
         log4 @ [SavingTo ''s3://gold/merged_data/merged_data.parquet'',
                 Msg ''Merged dataset saved to Gold Layer.'']))"

text \<open>\<open>merge_data\<close>: the store afterwards and everything it printed.\<close>

definition merge_data :: "pylib \<Rightarrow> store \<Rightarrow> store \<times> message list" where
  "merge_data lib st =
     (case merge_try lib st of
        (Inr st1, lg) \<Rightarrow> (st1, Msg ''Phase 4: Merging Datasets (Silver -> Gold)...'' # lg)
      | (Inl e, lg) \<Rightarrow>
          (st, Msg ''Phase 4: Merging Datasets (Silver -> Gold)...'' # lg @ [ErrorDuringMerge e]))"

definition frame_rows :: "pyerr + frame \<Rightarrow> nat option" where
  "frame_rows r = (case r of Inl e \<Rightarrow> None | Inr f \<Rightarrow> Some (length (rows f)))"

section \<open>Cell types and concrete inputs\<close>

text \<open>A cell that holds a number, and one that holds a number or \<open>None\<close>.\<close>

fun is_num :: "pyval \<Rightarrow> bool" where
  "is_num (PInt i) = True"
| "is_num (PFloat x) = True"
| "is_num PNaN = True"
| "is_num PNone = False"
| "is_num (PStr s) = False"

definition num_or_none :: "pyval \<Rightarrow> bool" where
  "num_or_none v = (v = PNone \<or> is_num v)"

text \<open>
  Two instances of the library for running the model: every raw word of the generators
  is \<open>0\<close> (so \<open>random()\<close> is \<open>0\<close>), or every raw word is \<open>2 ^ 52\<close> (so \<open>random()\<close> is
  \<open>1 / 2\<close>). No timestamp parses with \<open>errors='coerce'\<close>; the strict conversion keeps
  the cells.
\<close>

definition lib_zero :: pylib where
  "lib_zero = \<lparr>py_seed = (\<lambda>seed i. 0), np_seed = (\<lambda>seed i. 0), to_datetime = (\<lambda>v. NaT),
                to_datetime_strict = (\<lambda>vs. Some vs), strftime = (\<lambda>fmt h. fmt)\<rparr>"

definition lib_half :: pylib where
  "lib_half = \<lparr>py_seed = (\<lambda>seed i. 4503599627370496), np_seed = (\<lambda>seed i. 4503599627370496),
                to_datetime = (\<lambda>v. NaT), to_datetime_strict = (\<lambda>vs. Some vs),
                strftime = (\<lambda>fmt h. fmt)\<rparr>"

definition state_zero :: pystate where
  "state_zero = \<lparr>py_random = Rng (\<lambda>i. 0) 0, np_random = Rng (\<lambda>i. 0) 0\<rparr>"

text \<open>
  Two duplicate ratios as the floats they are: the default \<open>0.05\<close> of both generators,
  and the quotient \<open>1 / 3\<close>.
\<close>

definition ratio_default :: rat where
  "ratio_default = 3602879701896397 / 72057594037927936"

definition ratio_third :: rat where
  "ratio_third = 6004799503160661 / 18014398509481984"

text \<open>The weather row of the specification's concrete scenario.\<close>

definition snow_row :: weather_row where
  "snow_row = \<lparr>weather_id = PInt 5001, weather_row.date_time = PStr ''2024-01-01 00:00'',
                city = PStr ''London'', season = PStr ''Winter'', temperature_c = PFloat (-2),
                humidity = PInt 85, rain_mm = PFloat 0, weather_condition = PStr ''Snow'',
                wind_speed_kmh = PFloat 12, visibility_m = PInt 5000,
                air_pressure_hpa = PFloat 1012\<rparr>"

text \<open>
  The traffic rows that the two runs generate from \<open>snow_row\<close> at index 0: with every
  draw at one half and the default ratios nothing is nulled or perturbed; with every
  draw at zero, no nulling and the default outlier ratio every numeric field is an
  outlier.
\<close>

definition row_half :: traffic_row where
  "row_half = \<lparr>traffic_id = PInt 9001, date_time = PStr ''2024-01-01 00:00'', city = PStr ''London'',
                area = PStr ''Islington'', vehicle_count = PInt 1061, road_condition = PStr ''Snowy'',
                avg_speed_kmh = PFloat 55, congestion_level = PStr ''Low'', accident_count = PInt 0,
                visibility_m = PInt 5153\<rparr>"

definition row_zero :: traffic_row where
  "row_zero = \<lparr>traffic_id = PInt 9001, date_time = PStr ''2024-01-01 00:00'', city = PStr ''London'',
                area = PStr ''Camden'', vehicle_count = PFloat 19975, road_condition = PStr ''Snowy'',
                avg_speed_kmh = PFloat (- 26), congestion_level = PStr ''High'',
                accident_count = PFloat (- 5), visibility_m = PFloat 49975\<rparr>"

text \<open>A cell that \<open>with_outliers\<close> drew from one of its two bands.\<close>

fun in_outlier_band :: "rat \<Rightarrow> rat \<Rightarrow> pyval \<Rightarrow> bool" where
  "in_outlier_band lo hi (PFloat x) = ((lo - 25 \<le> x \<and> x \<le> lo) \<or> (hi \<le> x \<and> x \<le> hi + 25))"
| "in_outlier_band lo hi PNone = False"
| "in_outlier_band lo hi PNaN = False"
| "in_outlier_band lo hi (PInt i) = False"
| "in_outlier_band lo hi (PStr s) = False"

text \<open>
  Small cleaned tables for the merge: a weather table, a traffic table that shares one
  key with it, a traffic table whose timestamps are in another format, and a weather
  and a traffic table that each hold one row twice, as the generators' duplicate tails
  do. \<open>silver_store\<close> is the object store that holds a weather and a traffic table at
  the two silver paths and nothing else.
\<close>

definition frame_w :: frame where
  "frame_w = \<lparr>columns = [''weather_id'', ''date_time'', ''city'', ''visibility_m''],
              rows = [[PInt 5001, PStr ''2024-01-01 00:00'', PStr ''London'', PInt 5000],
                      [PInt 5002, PStr ''2024-01-01 02:00'', PStr ''London'', PInt 9000]]\<rparr>"

definition frame_t :: frame where
  "frame_t = \<lparr>columns = [''traffic_id'', ''date_time'', ''city'', ''visibility_m''],
              rows = [[PInt 9002, PStr ''2024-01-01 02:00'', PStr ''London'', PInt 9100],
                      [PInt 9003, PStr ''2024-01-01 04:00'', PStr ''London'', PInt 8000]]\<rparr>"

definition frame_t_other :: frame where
  "frame_t_other = \<lparr>columns = [''traffic_id'', ''date_time'', ''city'', ''visibility_m''],
              rows = [[PInt 9002, PStr ''01/01/2024 02AM'', PStr ''London'', PInt 9100],
                      [PInt 9003, PStr ''01/01/2024 04AM'', PStr ''London'', PInt 8000]]\<rparr>"

definition frame_w_dup :: frame where
  "frame_w_dup = \<lparr>columns = [''weather_id'', ''date_time'', ''city'', ''visibility_m''],
              rows = [[PInt 5001, PStr ''2024-01-01 00:00'', PStr ''London'', PInt 5000],
                      [PInt 5001, PStr ''2024-01-01 00:00'', PStr ''London'', PInt 5000]]\<rparr>"

definition frame_t_dup :: frame where
  "frame_t_dup = \<lparr>columns = [''traffic_id'', ''date_time'', ''city'', ''visibility_m''],
              rows = [[PInt 9001, PStr ''2024-01-01 00:00'', PStr ''London'', PInt 5153],
                      [PInt 9001, PStr ''2024-01-01 00:00'', PStr ''London'', PInt 5153]]\<rparr>"

definition silver_store :: "frame \<Rightarrow> frame \<Rightarrow> store" where
  "silver_store w t =
     (\<lambda>p. if p = ''s3://silver/weather_cleaned.parquet'' then Some w
          else if p = ''s3://silver/traffic_cleaned.parquet'' then Some t else None)"

section \<open>Basic facts about the random source and the defect injectors\<close>

lemma random_random_range: "0 \<le> fst (random_random g) \<and> fst (random_random g) < 1"
  by (simp add: random_random_def next_raw_def)

lemma maybe_null_cases: "fst (maybe_null nr v g) = PNone \<or> fst (maybe_null nr v g) = v"
  by (simp add: maybe_null_def split: prod.splits)

lemma maybe_null_always: "1 \<le> nr \<Longrightarrow> fst (maybe_null nr v g) = PNone"
  using random_random_range [of g]
  by (auto simp: maybe_null_def split: prod.splits)

lemma maybe_null_never: "nr \<le> 0 \<Longrightarrow> fst (maybe_null nr v g) = v"
  using random_random_range [of g]
  by (auto simp: maybe_null_def split: prod.splits)


lemma py_lt_num: "is_num v \<Longrightarrow> \<exists>b. py_lt v c = Inr b"
  by (cases v) auto
lemma py_le_num: "is_num v \<Longrightarrow> \<exists>b. py_le v c = Inr b"
  by (cases v) auto
lemma py_gt_num: "is_num v \<Longrightarrow> \<exists>b. py_gt v c = Inr b"
  by (cases v) auto
lemma py_ge_num: "is_num v \<Longrightarrow> \<exists>b. py_ge v c = Inr b"
  by (cases v) auto

lemma with_outliers_num: "is_num v \<Longrightarrow> is_num (fst (with_outliers orat v lo hi g))"
  by (auto simp: with_outliers_def split: prod.splits)

lemma maybe_null_num: "is_num v \<Longrightarrow> num_or_none (fst (maybe_null nr v g))"
  using maybe_null_cases [of nr v g] by (auto simp: num_or_none_def)

lemma generate_rain_ok:
  "num_or_none h \<Longrightarrow> \<exists>x g1. generate_rain h g = Inr (PFloat x, g1)"
  by (cases h) (auto simp: num_or_none_def generate_rain_def bind_res_def split: prod.splits)

lemma generate_weather_condition_ok:
  "num_or_none rain \<Longrightarrow> num_or_none temp \<Longrightarrow> \<exists>c g1. generate_weather_condition rain temp g = Inr (c, g1)"
  by (cases rain; cases temp) (auto simp: num_or_none_def generate_weather_condition_def bind_res_def split: prod.splits)

lemma generate_air_pressure_ok:
  "num_or_none temp \<Longrightarrow> \<exists>x g1. generate_air_pressure wc temp g = Inr (PFloat x, g1)"
  by (cases temp) (auto simp: num_or_none_def generate_air_pressure_def bind_res_def Let_def split: prod.splits)


lemma with_outliers_numD: "with_outliers orat v lo hi g = (v1, g1) \<Longrightarrow> is_num v \<Longrightarrow> is_num v1"
  using with_outliers_num [of v orat lo hi g] by simp

lemma maybe_null_numD: "maybe_null nr v g = (v1, g1) \<Longrightarrow> is_num v \<Longrightarrow> num_or_none v1"
  using maybe_null_num [of v nr g] by simp

lemma temperature_by_season_numD: "temperature_by_season s g = (v, g1) \<Longrightarrow> is_num v"
  by (auto simp: temperature_by_season_def Let_def split: prod.splits if_splits)

lemma generate_humidity_numD: "generate_humidity s g = (v, g1) \<Longrightarrow> is_num v"
  by (auto simp: generate_humidity_def Let_def split: prod.splits if_splits)

lemma generate_rain_InlD: "generate_rain h g = Inl e \<Longrightarrow> \<not> num_or_none h"
  using generate_rain_ok [of h g] by auto

lemma generate_rain_InrD: "generate_rain h g = Inr (v, g1) \<Longrightarrow> num_or_none h \<Longrightarrow> is_num v"
  using generate_rain_ok [of h g] by auto

lemma generate_weather_condition_InlD:
  "generate_weather_condition rain temp g = Inl e \<Longrightarrow> num_or_none rain \<Longrightarrow> \<not> num_or_none temp"
  using generate_weather_condition_ok [of rain temp g] by auto

lemma generate_air_pressure_InlD: "generate_air_pressure wc temp g = Inl e \<Longrightarrow> \<not> num_or_none temp"
  using generate_air_pressure_ok [of temp wc g] by auto

lemma generate_weather_row_ok:
  "\<exists>r g1. generate_weather_row lib nr orat bfr i g = Inr (r, g1)"
proof (cases "generate_weather_row lib nr orat bfr i g")
  case (Inr p)
  then show ?thesis by (cases p) simp
next
  case (Inl e)
  then have False
    unfolding generate_weather_row_def bind_res_def
    by (auto split: prod.splits sum.splits
          dest!: generate_rain_InlD generate_weather_condition_InlD generate_air_pressure_InlD)
       (meson temperature_by_season_numD generate_humidity_numD with_outliers_numD
              maybe_null_numD generate_rain_InrD)+
  then show ?thesis ..
qed

lemma weather_rows_ok:
  "\<exists>rs g1. weather_rows lib nr orat bfr i k g = Inr (rs, g1) \<and> length rs = k"
proof (induction k arbitrary: i g)
  case 0
  show ?case by simp
next
  case (Suc k)
  obtain r g1 where r: "generate_weather_row lib nr orat bfr i g = Inr (r, g1)"
    using generate_weather_row_ok by blast
  obtain rs g2 where rs: "weather_rows lib nr orat bfr (Suc i) k g1 = Inr (rs, g2)" "length rs = k"
    using Suc.IH by blast
  show ?case by (simp add: r rs bind_res_def)
qed


lemma choose_rows_lengthD: "choose_rows k pool g = (rs, g1) \<Longrightarrow> length rs = k"
  by (induction k arbitrary: pool g rs g1) (auto simp: Let_def split: prod.splits)

lemma choose_rows_length: "length (fst (choose_rows k pool g)) = k"
  using choose_rows_lengthD [of k pool g] by (cases "choose_rows k pool g") simp

lemma choose_rows_subset: "k \<le> length pool \<Longrightarrow> set (fst (choose_rows k pool g)) \<subseteq> set pool"
proof (induction k arbitrary: pool g)
  case 0
  show ?case by simp
next
  case (Suc k)
  obtain r g1 where r: "next_raw g = (r, g1)" by (cases "next_raw g")
  define j where "j = r mod length pool"
  have pos: "0 < length pool" using Suc.prems by (cases pool) auto
  then have j: "j < length pool" by (simp add: j_def)
  let ?rest = "take j pool @ drop (Suc j) pool"
  have len: "k \<le> length ?rest" using Suc.prems j by simp
  have sub: "set ?rest \<subseteq> set pool"
    using set_take_subset [of j pool] set_drop_subset [of "Suc j" pool] by auto
  have "set (fst (choose_rows k ?rest g1)) \<subseteq> set pool"
    using Suc.IH [OF len, of g1] sub by blast
  moreover have "pool ! j \<in> set pool" using j by simp
  ultimately show ?case
    by (auto simp: r j_def [symmetric] Let_def split: prod.splits)
qed

section \<open>Binary64 rounding\<close>

lemma pow2_pos: "0 < pow2 e"
  by (simp add: pow2_def)

lemma pow2_add: "pow2 (a + b) = pow2 a * pow2 b"
proof -
  have "pow2 e = 2 powi e" for e
    by (simp add: pow2_def power_int_def field_simps)
  then show ?thesis by (simp add: power_int_add)
qed

lemma pow2_Suc: "pow2 (e + 1) = 2 * pow2 e"
  using pow2_add [of e 1] by (simp add: pow2_def)

lemma pow2_nat: "pow2 (int n) = 2 ^ n"
  by (simp add: pow2_def)

lemma pow2_mono: "a \<le> b \<Longrightarrow> pow2 a \<le> pow2 b"
proof -
  assume ab: "a \<le> b"
  have "pow2 b = pow2 a * pow2 (b - a)" using pow2_add [of a "b - a"] by simp
  moreover have "1 \<le> pow2 (b - a)" using ab by (simp add: pow2_def)
  ultimately show ?thesis using pow2_pos [of a] by simp
qed

lemma exp_up_eq:
  "2 ^ e \<le> x \<Longrightarrow> x < 2 ^ Suc e \<Longrightarrow> e \<le> k \<Longrightarrow> exp_up k x = int e"
proof (induction k arbitrary: x e)
  case 0
  then show ?case by simp
next
  case (Suc k)
  show ?case
  proof (cases e)
    case 0
    then show ?thesis using Suc.prems by simp
  next
    case (Suc e')
    have "2 ^ e' \<le> x / 2" "x / 2 < 2 ^ Suc e'" "e' \<le> k"
      using Suc.prems Suc by simp_all
    from Suc.IH [OF this] have "exp_up k (x / 2) = int e'" .
    moreover have "\<not> x < 2"
    proof -
      have "(2::rat) ^ 1 \<le> 2 ^ e" unfolding Suc by (intro power_increasing) simp_all
      then show ?thesis using Suc.prems(1) by simp
    qed
    ultimately show ?thesis using Suc by simp
  qed
qed

lemma exp_down_eq:
  "1 \<le> x * 2 ^ e \<Longrightarrow> x * 2 ^ e < 2 \<Longrightarrow> e \<le> k \<Longrightarrow> exp_down k x = - int e"
proof (induction k arbitrary: x e)
  case 0
  then show ?case by simp
next
  case (Suc k)
  show ?case
  proof (cases e)
    case 0
    then show ?thesis using Suc.prems by simp
  next
    case (Suc e')
    have "1 \<le> (x * 2) * 2 ^ e'" "(x * 2) * 2 ^ e' < 2" "e' \<le> k"
      using Suc.prems Suc by (simp_all add: mult.assoc)
    from Suc.IH [OF this] have "exp_down k (x * 2) = - int e'" .
    moreover have "\<not> 1 \<le> x"
    proof
      assume "1 \<le> x"
      moreover have "(2::rat) ^ 1 \<le> 2 ^ e" unfolding Suc by (intro power_increasing) simp_all
      ultimately have "1 * 2 \<le> x * 2 ^ e" by (intro mult_mono) simp_all
      then show False using Suc.prems(2) by simp
    qed
    ultimately show ?thesis using Suc by simp
  qed
qed

text \<open>The exponent search finds the binary exponent of every non-zero \<open>x\<close> in reach.\<close>

lemma float_exponent_eq:
  assumes "pow2 e \<le> \<bar>x\<bar>" and "\<bar>x\<bar> < pow2 (e + 1)" and "- 1100 \<le> e" and "e \<le> 1100"
  shows "float_exponent x = e"
proof (cases "0 \<le> e")
  case True
  then have "1 \<le> pow2 e" by (simp add: pow2_def)
  then have one: "1 \<le> \<bar>x\<bar>" using assms(1) by linarith
  have "2 ^ nat e \<le> \<bar>x\<bar>" using assms(1) True by (simp add: pow2_def)
  moreover have "\<bar>x\<bar> < 2 ^ Suc (nat e)"
    using assms(2) True by (simp add: pow2_def nat_add_distrib)
  moreover have "nat e \<le> 1100" using assms(4) by simp
  ultimately have "exp_up 1100 \<bar>x\<bar> = int (nat e)" by (rule exp_up_eq)
  then show ?thesis using one True by (simp add: float_exponent_def)
next
  case False
  then have neg: "e < 0" by simp
  then have "pow2 (e + 1) \<le> 1" by (simp add: pow2_def)
  then have lt: "\<not> 1 \<le> \<bar>x\<bar>" using assms(2) by linarith
  have p: "pow2 e * 2 ^ nat (- e) = 1" using neg by (simp add: pow2_def)
  have "pow2 e * 2 ^ nat (- e) \<le> \<bar>x\<bar> * 2 ^ nat (- e)"
    using assms(1) by (intro mult_right_mono) simp_all
  then have a: "1 \<le> \<bar>x\<bar> * 2 ^ nat (- e)" using p by simp
  have "\<bar>x\<bar> * 2 ^ nat (- e) < pow2 (e + 1) * 2 ^ nat (- e)"
    using assms(2) by (intro mult_strict_right_mono) simp_all
  moreover have "pow2 (e + 1) * 2 ^ nat (- e) = 2" using p by (simp add: pow2_Suc)
  ultimately have b: "\<bar>x\<bar> * 2 ^ nat (- e) < 2" by simp
  have "nat (- e) \<le> 1100" using assms(3) by simp
  with a b have "exp_down 1100 \<bar>x\<bar> = - int (nat (- e))" by (rule exp_down_eq)
  then show ?thesis using lt neg by (simp add: float_exponent_def)
qed

lemma round_half_even_near: "\<bar>x - of_int m\<bar> < 1 / 2 \<Longrightarrow> round_half_even x = m"
proof -
  assume a: "\<bar>x - of_int m\<bar> < 1 / 2"
  show ?thesis
  proof (cases "of_int m \<le> x")
    case True
    then have "\<lfloor>x\<rfloor> = m" using a by (intro floor_unique) linarith+
    then show ?thesis using a True by (simp add: round_half_even_def Let_def)
  next
    case False
    have "of_int (m - 1) \<le> x" "x < of_int (m - 1) + 1" using a False by simp_all
    then have f: "\<lfloor>x\<rfloor> = m - 1" by (rule floor_unique)
    have "1 / 2 < x - of_int (m - 1)" using a False by simp
    then show ?thesis using f by (simp add: round_half_even_def Let_def)
  qed
qed

lemma round_half_even_tie:
  "x = of_int m + 1 / 2 \<Longrightarrow> round_half_even x = (if even m then m else m + 1)"
proof -
  assume a: "x = of_int m + 1 / 2"
  then have "\<lfloor>x\<rfloor> = m" by (intro floor_unique) simp_all
  then show ?thesis using a by (simp add: round_half_even_def Let_def)
qed

lemma round_half_even_int: "round_half_even (of_int m) = m"
  by (rule round_half_even_near) simp

text \<open>Evaluating \<open>round_to_double\<close> in the normal range, away from a tie and at one.\<close>

lemma round_to_double_near:
  assumes "pow2 e \<le> \<bar>x\<bar>" and "\<bar>x\<bar> < pow2 (e + 1)" and "- 1022 \<le> e" and "e \<le> 1100"
    and "\<bar>x / pow2 (e - 52) - of_int m\<bar> < 1 / 2"
  shows "round_to_double x = of_int m * pow2 (e - 52)"
proof -
  have "x \<noteq> 0" using assms(1) pow2_pos [of e] by auto
  moreover have "float_exponent x = e" using assms(1-4) by (intro float_exponent_eq) simp_all
  moreover have "max (e - 52) (- 1074) = e - 52" using assms(3) by simp
  ultimately show ?thesis
    by (simp add: round_to_double_def Let_def round_half_even_near [OF assms(5)])
qed

lemma round_to_double_tie:
  assumes "pow2 e \<le> \<bar>x\<bar>" and "\<bar>x\<bar> < pow2 (e + 1)" and "- 1022 \<le> e" and "e \<le> 1100"
    and "x / pow2 (e - 52) = of_int m + 1 / 2"
  shows "round_to_double x = of_int (if even m then m else m + 1) * pow2 (e - 52)"
proof -
  have "x \<noteq> 0" using assms(1) pow2_pos [of e] by auto
  moreover have "float_exponent x = e" using assms(1-4) by (intro float_exponent_eq) simp_all
  moreover have "max (e - 52) (- 1074) = e - 52" using assms(3) by simp
  ultimately show ?thesis
    by (simp add: round_to_double_def Let_def round_half_even_tie [OF assms(5)])
qed

text \<open>An integer below \<open>2 ^ 53\<close> is a double: its conversion is exact.\<close>

lemma round_to_double_nat:
  assumes "n < 2 ^ 53"
  shows "round_to_double (of_nat n) = of_nat n"
proof (cases "n = 0")
  case True
  then show ?thesis by (simp add: round_to_double_def)
next
  case False
  then have "1 \<le> n" by simp
  then obtain e where e: "2 ^ e \<le> n" "n < 2 ^ (e + 1)"
    using ex_power_ivl1 [of 2 n] by auto
  have "(2::nat) ^ e < 2 ^ 53" using e(1) assms by linarith
  then have e53: "e < 53" using power_less_imp_less_exp [of 2 e 53] by simp
  let ?x = "rat_of_nat n"
  have lo: "pow2 (int e) \<le> \<bar>?x\<bar>"
    using e(1) by (simp add: pow2_nat)
  have hi: "\<bar>?x\<bar> < pow2 (int e + 1)"
  proof -
    have "rat_of_nat n < rat_of_nat (2 ^ (e + 1))" using e(2) by (simp only: of_nat_less_iff)
    then show ?thesis using pow2_nat [of "e + 1"] by (simp add: add.commute)
  qed
  have "nat (52 - int e) = 52 - e" by arith
  then have sc: "pow2 (int e - 52) * 2 ^ (52 - e) = 1"
    using e53 by (simp add: pow2_def)
  have "?x / pow2 (int e - 52) = ?x * 2 ^ (52 - e)"
    using sc pow2_pos [of "int e - 52"] by (simp add: field_simps)
  also have "\<dots> = of_int (int n * 2 ^ (52 - e))" by simp
  finally have "\<bar>?x / pow2 (int e - 52) - of_int (int n * 2 ^ (52 - e))\<bar> < 1 / 2" by simp
  from round_to_double_near [OF lo hi _ _ this]
  have "round_to_double ?x = of_int (int n * 2 ^ (52 - e)) * pow2 (int e - 52)"
    using e53 by simp
  also have "\<dots> = ?x * (pow2 (int e - 52) * 2 ^ (52 - e))" by simp
  finally show ?thesis using sc by simp
qed

lemma float_of_int_nat: "n < 2 ^ 53 \<Longrightarrow> float_of_int (int n) = Inr (of_nat n)"
proof -
  assume a: "n < 2 ^ 53"
  have "rat_of_nat n < rat_of_nat (2 ^ 53)" using a by (simp only: of_nat_less_iff)
  also have "\<dots> \<le> pow2 1024" by (simp add: pow2_def)
  finally have "\<not> pow2 1024 \<le> \<bar>rat_of_nat n\<bar>" by simp
  then show ?thesis
    using round_to_double_nat [OF a] by (simp add: float_of_int_def Let_def)
qed

text \<open>For a row count below \<open>2 ^ 53\<close> the count of duplicates is the truncated rounded
  product, unless the product overflows.\<close>

lemma dup_count_small:
  assumes "n < 2 ^ 53"
  shows "dup_count n d =
           (if pow2 1024 \<le> \<bar>round_to_double (of_nat n * d)\<bar>
            then Inl (OverflowError ''cannot convert float infinity to integer'')
            else Inr (py_trunc (round_to_double (of_nat n * d))))"
  by (simp add: dup_count_def float_of_int_nat [OF assms] bind_res_def float_mul_def Let_def)

lemma dup_count_zero: "n < 2 ^ 53 \<Longrightarrow> dup_count n 0 = Inr 0"
  by (simp add: dup_count_small round_to_double_def py_trunc_def pow2_def)

lemma dup_count_one_zero: "dup_count 1 0 = Inr 0"
  using dup_count_zero [of 1] by simp

text \<open>Where the product is itself a double, the count is the floor of the exact product.\<close>

lemma dup_count_exact:
  assumes "n < 2 ^ 53" and "0 \<le> d" and "round_to_double (of_nat n * d) = of_nat n * d"
    and "of_nat n * d < pow2 1024"
  shows "dup_count n d = Inr \<lfloor>of_nat n * d\<rfloor>"
proof -
  have "0 \<le> rat_of_nat n * d" using assms(2) by simp
  then show ?thesis
    using assms by (simp add: dup_count_small py_trunc_def)
qed

text \<open>
  The default call of both scripts, 5000 rows at the ratio \<open>0.05\<close>: the product rounds to
  250. Three rows at the ratio \<open>1 / 3\<close>: the exact product is \<open>1 - 2 ^ - 54\<close>, half way
  between two doubles, and rounds to 1.
\<close>

lemma dup_count_default: "dup_count 5000 ratio_default = Inr 250"
proof -
  let ?x = "rat_of_nat 5000 * ratio_default"
  have "round_to_double ?x = of_int 8796093022208000 * pow2 (7 - 52)"
    unfolding ratio_default_def by (rule round_to_double_near) (simp_all add: pow2_def)
  then have r: "round_to_double ?x = 250" by (simp add: pow2_def)
  have small: "(5000::nat) < 2 ^ 53" by simp
  show ?thesis
    unfolding dup_count_small [OF small] r by (simp add: pow2_def py_trunc_def)
qed

lemma dup_count_third: "dup_count 3 ratio_third = Inr 1"
proof -
  let ?x = "rat_of_nat 3 * ratio_third"
  have "round_to_double ?x =
          of_int (if even (9007199254740991::int) then 9007199254740991 else 9007199254740991 + 1) *
            pow2 (- 1 - 52)"
    unfolding ratio_third_def by (rule round_to_double_tie) (simp_all add: pow2_def)
  then have r: "round_to_double ?x = 1" by (simp add: pow2_def)
  have small: "(3::nat) < 2 ^ 53" by simp
  show ?thesis
    unfolding dup_count_small [OF small] r by (simp add: pow2_def py_trunc_def)
qed

lemma dup_count_forty: "dup_count 40 ratio_default = Inr 2"
proof -
  let ?x = "rat_of_nat 40 * ratio_default"
  have "round_to_double ?x = of_int 4503599627370496 * pow2 (1 - 52)"
    unfolding ratio_default_def by (rule round_to_double_near) (simp_all add: pow2_def)
  then have r: "round_to_double ?x = 2" by (simp add: pow2_def)
  have small: "(40::nat) < 2 ^ 53" by simp
  show ?thesis
    unfolding dup_count_small [OF small] r by (simp add: pow2_def py_trunc_def)
qed

lemma dup_count_one_two: "dup_count 1 2 = Inr 2"
proof -
  have "round_to_double (rat_of_nat 2) = rat_of_nat 2" by (rule round_to_double_nat) simp
  then have "dup_count 1 2 = Inr \<lfloor>rat_of_nat 1 * 2\<rfloor>"
    by (intro dup_count_exact) (simp_all add: pow2_def)
  then show ?thesis by simp
qed

lemma dup_count_one_minus_two: "dup_count 1 (- 2) = Inr (- 2)"
proof -
  let ?x = "rat_of_nat 1 * (- 2)"
  have "round_to_double ?x = of_int (- 4503599627370496) * pow2 (1 - 52)"
    by (rule round_to_double_near) (simp_all add: pow2_def)
  then have r: "round_to_double ?x = - 2" by (simp add: pow2_def)
  have small: "(1::nat) < 2 ^ 53" by simp
  show ?thesis
    unfolding dup_count_small [OF small] r by (simp add: pow2_def py_trunc_def)
qed

text \<open>Both ratios are doubles: rounding leaves them as they are.\<close>

lemma ratio_default_double: "round_to_double ratio_default = ratio_default"
proof -
  have "round_to_double ratio_default = of_int 7205759403792794 * pow2 (- 5 - 52)"
    unfolding ratio_default_def by (rule round_to_double_near) (simp_all add: pow2_def)
  then show ?thesis by (simp add: pow2_def ratio_default_def)
qed

lemma ratio_third_double: "round_to_double ratio_third = ratio_third"
proof -
  have "round_to_double ratio_third = of_int 6004799503160661 * pow2 (- 2 - 52)"
    unfolding ratio_third_def by (rule round_to_double_near) (simp_all add: pow2_def)
  then show ?thesis by (simp add: pow2_def ratio_third_def)
qed

section \<open>The size of the duplicate tail\<close>

lemma py_trunc_nonneg: "0 \<le> x \<Longrightarrow> py_trunc x = \<lfloor>x\<rfloor>"
  by (simp add: py_trunc_def)

lemma row_count_df_sample:
  "row_count (bind_res (df_sample k df g) (\<lambda>(dups, ng). Inr (df @ dups, f ng))) =
     (if 0 \<le> k \<and> k \<le> int (length df) then Some (length df + nat k) else None)"
  using choose_rows_length [of "nat k" df g]
  by (auto simp: row_count_def bind_res_def df_sample_def split: prod.splits)

text \<open>The weather generator: \<open>n\<close> generated rows, then the count, then the sample.\<close>

lemma weather_dataset_shape:
  "\<exists>rs g1. length rs = n \<and>
     generate_weather_dataset lib n d nr orat bfr st =
       bind_res (dup_count n d)
         (\<lambda>k. bind_res (df_sample k rs (Rng (np_seed lib 42) 0))
               (\<lambda>(dups, ng). Inr (rs @ dups, \<lparr>py_random = g1, np_random = ng\<rparr>)))"
proof -
  obtain rs g1 where rs:
    "weather_rows lib nr orat bfr 0 n (Rng (py_seed lib 42) 0) = Inr (rs, g1)" "length rs = n"
    using weather_rows_ok by blast
  have "generate_weather_dataset lib n d nr orat bfr st =
       bind_res (dup_count n d)
         (\<lambda>k. bind_res (df_sample k rs (Rng (np_seed lib 42) 0))
               (\<lambda>(dups, ng). Inr (rs @ dups, \<lparr>py_random = g1, np_random = ng\<rparr>)))"
    unfolding generate_weather_dataset_def Let_def by (simp add: rs(1) bind_res_def)
  then show ?thesis using rs(2) by blast
qed

lemma weather_dataset_rows:
  "row_count (generate_weather_dataset lib n d nr orat bfr st) =
     (case dup_count n d of
        Inl e \<Rightarrow> None
      | Inr k \<Rightarrow> if 0 \<le> k \<and> k \<le> int n then Some (n + nat k) else None)"
proof -
  obtain rs g1 where len: "length rs = n" and gen:
    "generate_weather_dataset lib n d nr orat bfr st =
       bind_res (dup_count n d)
         (\<lambda>k. bind_res (df_sample k rs (Rng (np_seed lib 42) 0))
               (\<lambda>(dups, ng). Inr (rs @ dups, \<lparr>py_random = g1, np_random = ng\<rparr>)))"
    using weather_dataset_shape [of n lib d nr orat bfr st] by blast
  show ?thesis
  proof (cases "dup_count n d")
    case (Inl e)
    then show ?thesis by (simp add: gen bind_res_def row_count_def)
  next
    case (Inr k)
    have "generate_weather_dataset lib n d nr orat bfr st =
            bind_res (df_sample k rs (Rng (np_seed lib 42) 0))
              (\<lambda>(dups, ng). Inr (rs @ dups, \<lparr>py_random = g1, np_random = ng\<rparr>))"
      by (simp add: gen Inr bind_res_def)
    then show ?thesis
      using row_count_df_sample [of k rs "Rng (np_seed lib 42) 0"
              "\<lambda>ng. \<lparr>py_random = g1, np_random = ng\<rparr>"]
      by (simp add: Inr len)
  qed
qed

lemma weather_dataset_raises:
  assumes "dup_count n d = Inr k"
  shows "k < 0 \<Longrightarrow> generate_weather_dataset lib n d nr orat bfr st =
           Inl (ValueError ''A negative number of rows requested'')"
    and "int n < k \<Longrightarrow> generate_weather_dataset lib n d nr orat bfr st =
           Inl (ValueError ''Cannot take a larger sample than population'')"
proof -
  obtain rs g1 where len: "length rs = n" and gen:
    "generate_weather_dataset lib n d nr orat bfr st =
       bind_res (dup_count n d)
         (\<lambda>k. bind_res (df_sample k rs (Rng (np_seed lib 42) 0))
               (\<lambda>(dups, ng). Inr (rs @ dups, \<lparr>py_random = g1, np_random = ng\<rparr>)))"
    using weather_dataset_shape [of n lib d nr orat bfr st] by blast
  show "k < 0 \<Longrightarrow> generate_weather_dataset lib n d nr orat bfr st =
           Inl (ValueError ''A negative number of rows requested'')"
    by (simp add: gen assms bind_res_def df_sample_def)
  show "int n < k \<Longrightarrow> generate_weather_dataset lib n d nr orat bfr st =
           Inl (ValueError ''Cannot take a larger sample than population'')"
    by (simp add: gen assms bind_res_def df_sample_def len)
qed

lemma traffic_rows_lengthD: "traffic_rows lib nr orat ws i g = (rs, g1) \<Longrightarrow> length rs = length ws"
  by (induction ws arbitrary: i g rs g1) (auto split: prod.splits)

lemma traffic_rows_length: "length (fst (traffic_rows lib nr orat ws i g)) = length ws"
  using traffic_rows_lengthD [of lib nr orat ws i g]
  by (cases "traffic_rows lib nr orat ws i g") simp

lemma traffic_rows_nth:
  "j < length ws \<Longrightarrow>
     \<exists>g1. fst (traffic_rows lib nr orat ws i g) ! j = fst (generate_traffic_row lib nr orat (ws ! j) (i + j) g1)"
proof (induction ws arbitrary: i j g)
  case Nil
  then show ?case by simp
next
  case (Cons w ws)
  obtain r g1 where r: "generate_traffic_row lib nr orat w i g = (r, g1)"
    by (cases "generate_traffic_row lib nr orat w i g")
  show ?case
  proof (cases j)
    case 0
    have "fst (traffic_rows lib nr orat (w # ws) i g) ! 0 = fst (generate_traffic_row lib nr orat w i g)"
      by (simp add: r split: prod.splits)
    then show ?thesis using 0 by auto
  next
    case (Suc j')
    then have "j' < length ws" using Cons.prems by simp
    from Cons.IH [OF this, of "Suc i" g1] obtain g2 where
      "fst (traffic_rows lib nr orat ws (Suc i) g1) ! j' =
         fst (generate_traffic_row lib nr orat (ws ! j') (Suc i + j') g2)" by blast
    moreover obtain rs g3 where "traffic_rows lib nr orat ws (Suc i) g1 = (rs, g3)"
      by (cases "traffic_rows lib nr orat ws (Suc i) g1")
    ultimately have "fst (traffic_rows lib nr orat (w # ws) i g) ! j =
         fst (generate_traffic_row lib nr orat ((w # ws) ! j) (i + j) g2)"
      by (simp add: r Suc split: prod.splits)
    then show ?thesis by blast
  qed
qed

text \<open>The traffic generator: one row per weather row, then the count, then the sample.\<close>

lemma traffic_dataset_shape:
  "\<exists>rs g1. traffic_rows lib nr orat W 0 (Rng (py_seed lib 43) 0) = (rs, g1) \<and>
     length rs = length W \<and>
     generate_traffic_dataset lib W n d nr orat st =
       bind_res (dup_count n d)
         (\<lambda>k. bind_res (df_sample k rs (Rng (np_seed lib 43) 0))
               (\<lambda>(dups, ng). Inr (rs @ dups, \<lparr>py_random = g1, np_random = ng\<rparr>)))"
proof -
  obtain rs g1 where rs: "traffic_rows lib nr orat W 0 (Rng (py_seed lib 43) 0) = (rs, g1)"
    by (cases "traffic_rows lib nr orat W 0 (Rng (py_seed lib 43) 0)")
  have len: "length rs = length W"
    using traffic_rows_length [of lib nr orat W 0 "Rng (py_seed lib 43) 0"] by (simp add: rs)
  have "generate_traffic_dataset lib W n d nr orat st =
       bind_res (dup_count n d)
         (\<lambda>k. bind_res (df_sample k rs (Rng (np_seed lib 43) 0))
               (\<lambda>(dups, ng). Inr (rs @ dups, \<lparr>py_random = g1, np_random = ng\<rparr>)))"
    unfolding generate_traffic_dataset_def Let_def by (simp add: rs)
  then show ?thesis using rs len by blast
qed

lemma traffic_dataset_rows:
  "row_count (generate_traffic_dataset lib W n d nr orat st) =
     (case dup_count n d of
        Inl e \<Rightarrow> None
      | Inr k \<Rightarrow> if 0 \<le> k \<and> k \<le> int (length W) then Some (length W + nat k) else None)"
proof -
  obtain rs g1 where len: "length rs = length W" and gen:
    "generate_traffic_dataset lib W n d nr orat st =
       bind_res (dup_count n d)
         (\<lambda>k. bind_res (df_sample k rs (Rng (np_seed lib 43) 0))
               (\<lambda>(dups, ng). Inr (rs @ dups, \<lparr>py_random = g1, np_random = ng\<rparr>)))"
    using traffic_dataset_shape [of lib nr orat W n d st] by blast
  show ?thesis
  proof (cases "dup_count n d")
    case (Inl e)
    then show ?thesis by (simp add: gen bind_res_def row_count_def)
  next
    case (Inr k)
    have "generate_traffic_dataset lib W n d nr orat st =
            bind_res (df_sample k rs (Rng (np_seed lib 43) 0))
              (\<lambda>(dups, ng). Inr (rs @ dups, \<lparr>py_random = g1, np_random = ng\<rparr>))"
      by (simp add: gen Inr bind_res_def)
    then show ?thesis
      using row_count_df_sample [of k rs "Rng (np_seed lib 43) 0"
              "\<lambda>ng. \<lparr>py_random = g1, np_random = ng\<rparr>"]
      by (simp add: Inr len)
  qed
qed

lemma traffic_dataset_raises:
  assumes "dup_count n d = Inr k"
  shows "k < 0 \<Longrightarrow> generate_traffic_dataset lib W n d nr orat st =
           Inl (ValueError ''A negative number of rows requested'')"
    and "int (length W) < k \<Longrightarrow> generate_traffic_dataset lib W n d nr orat st =
           Inl (ValueError ''Cannot take a larger sample than population'')"
proof -
  obtain rs g1 where len: "length rs = length W" and gen:
    "generate_traffic_dataset lib W n d nr orat st =
       bind_res (dup_count n d)
         (\<lambda>k. bind_res (df_sample k rs (Rng (np_seed lib 43) 0))
               (\<lambda>(dups, ng). Inr (rs @ dups, \<lparr>py_random = g1, np_random = ng\<rparr>)))"
    using traffic_dataset_shape [of lib nr orat W n d st] by blast
  show "k < 0 \<Longrightarrow> generate_traffic_dataset lib W n d nr orat st =
           Inl (ValueError ''A negative number of rows requested'')"
    by (simp add: gen assms bind_res_def df_sample_def)
  show "int (length W) < k \<Longrightarrow> generate_traffic_dataset lib W n d nr orat st =
           Inl (ValueError ''Cannot take a larger sample than population'')"
    by (simp add: gen assms bind_res_def df_sample_def len)
qed

text \<open>Every row of the returned table is the row generated for some weather row; the
  first rows are those of the weather table in order.\<close>

lemma traffic_dataset_returned:
  assumes "generate_traffic_dataset lib W n d nr orat st = Inr (tbl, st1)"
  shows "\<exists>rs g1 k. traffic_rows lib nr orat W 0 (Rng (py_seed lib 43) 0) = (rs, g1) \<and>
           length rs = length W \<and> 0 \<le> k \<and> k \<le> int (length rs) \<and>
           tbl = rs @ fst (choose_rows (nat k) rs (Rng (np_seed lib 43) 0))"
proof -
  obtain rs g1 where rs: "traffic_rows lib nr orat W 0 (Rng (py_seed lib 43) 0) = (rs, g1)"
    and len: "length rs = length W" and gen:
    "generate_traffic_dataset lib W n d nr orat st =
       bind_res (dup_count n d)
         (\<lambda>k. bind_res (df_sample k rs (Rng (np_seed lib 43) 0))
               (\<lambda>(dups, ng). Inr (rs @ dups, \<lparr>py_random = g1, np_random = ng\<rparr>)))"
    using traffic_dataset_shape [of lib nr orat W n d st] by blast
  from assms obtain k where k: "dup_count n d = Inr k"
    by (cases "dup_count n d") (simp_all add: gen bind_res_def)
  have "bind_res (df_sample k rs (Rng (np_seed lib 43) 0))
          (\<lambda>(dups, ng). Inr (rs @ dups, \<lparr>py_random = g1, np_random = ng\<rparr>)) = Inr (tbl, st1)"
    using assms by (simp add: gen k bind_res_def)
  then have "0 \<le> k \<and> k \<le> int (length rs) \<and>
      tbl = rs @ fst (choose_rows (nat k) rs (Rng (np_seed lib 43) 0))"
    by (auto simp: bind_res_def df_sample_def split: if_splits prod.splits)
  then show ?thesis using rs len by blast
qed

lemma traffic_dataset_nth:
  assumes "generate_traffic_dataset lib W n d nr orat st = Inr (tbl, st1)" and "j < length W"
  shows "\<exists>g1. tbl ! j = fst (generate_traffic_row lib nr orat (W ! j) j g1)"
proof -
  obtain rs g1 k where rs: "traffic_rows lib nr orat W 0 (Rng (py_seed lib 43) 0) = (rs, g1)"
    and len: "length rs = length W"
    and tbl: "tbl = rs @ fst (choose_rows (nat k) rs (Rng (np_seed lib 43) 0))"
    using traffic_dataset_returned [OF assms(1)] by blast
  have "tbl ! j = rs ! j" using assms(2) len by (simp add: tbl nth_append)
  moreover have "\<exists>g2. rs ! j = fst (generate_traffic_row lib nr orat (W ! j) (0 + j) g2)"
    using traffic_rows_nth [OF assms(2), of lib nr orat 0 "Rng (py_seed lib 43) 0"] by (simp add: rs)
  ultimately show ?thesis by simp
qed

text \<open>The rows after the first \<open>L\<close> are copies of rows among the first \<open>L\<close>.\<close>

lemma traffic_dataset_tail:
  assumes "generate_traffic_dataset lib W n d nr orat st = Inr (tbl, st1)" and "j < length tbl"
  shows "\<exists>k<length W. tbl ! j = tbl ! k"
proof -
  obtain rs g1 c where len: "length rs = length W"
    and ok: "0 \<le> c" "c \<le> int (length rs)"
    and tbl: "tbl = rs @ fst (choose_rows (nat c) rs (Rng (np_seed lib 43) 0))"
    using traffic_dataset_returned [OF assms(1)] by blast
  have sub: "set (fst (choose_rows (nat c) rs (Rng (np_seed lib 43) 0))) \<subseteq> set rs"
    using ok by (intro choose_rows_subset) linarith
  have "tbl ! j \<in> set tbl" using assms(2) by simp
  then have "tbl ! j \<in> set rs" using sub unfolding tbl by auto
  then obtain k where k: "k < length rs" "rs ! k = tbl ! j" by (auto simp: in_set_conv_nth)
  have "tbl ! k = rs ! k" unfolding tbl using k(1) by (simp add: nth_append)
  then show ?thesis using k len by (intro exI [of _ k]) simp
qed

section \<open>The fields of a generated traffic row\<close>


lemma maybe_null_neverD: "maybe_null nr v g = (v1, g1) \<Longrightarrow> nr \<le> 0 \<Longrightarrow> v1 = v"
  using maybe_null_never [of nr v g] by simp

lemma traffic_row_date_time:
  "traffic_row.date_time (fst (generate_traffic_row lib nr orat w i g)) = weather_row.date_time w"
  by (simp add: generate_traffic_row_def Let_def split: prod.splits)


lemma traffic_row_id_city:
  "\<exists>g1 g2. traffic_id (fst (generate_traffic_row lib nr orat w i g)) = fst (maybe_null nr (PInt (9001 + int i)) g1) \<and>
     traffic_row.city (fst (generate_traffic_row lib nr orat w i g)) = fst (maybe_null nr (PStr ''London'') g2)"
  by (simp add: generate_traffic_row_def Let_def split: prod.splits) (metis fst_conv)

lemma traffic_row_road_condition:
  "\<exists>g1 g2. road_condition (fst (generate_traffic_row lib nr orat w i g)) =
     fst (maybe_null nr (fst (generate_road_condition (weather_condition w) g1)) g2)"
  by (simp add: generate_traffic_row_def Let_def split: prod.splits) (metis fst_conv)

lemma traffic_row_visibility:
  "\<exists>g1 g2 g3. traffic_row.visibility_m (fst (generate_traffic_row lib nr orat w i g)) =
     fst (maybe_null nr (fst (with_outliers orat
       (fst (get_traffic_visibility (weather_row.visibility_m w) g1)) 50000 120000 g2)) g3)"
  by (simp add: generate_traffic_row_def Let_def split: prod.splits) (metis fst_conv)

section \<open>Ranges of the draws and of the injected outliers\<close>

lemma random_choice_mem: "xs \<noteq> [] \<Longrightarrow> fst (random_choice xs g) \<in> set xs"
  by (simp add: random_choice_def next_raw_def)

lemma random_randint_range:
  assumes "a \<le> b"
  shows "a \<le> fst (random_randint a b g) \<and> fst (random_randint a b g) \<le> b"
proof -
  define m where "m = src g (pos g) mod nat (b - a + 1)"
  have "m < nat (b - a + 1)"
    unfolding m_def using assms by (intro mod_less_divisor) simp
  then have "int m \<le> b - a" using assms by linarith
  moreover have "fst (random_randint a b g) = a + int m"
    by (simp add: random_randint_def next_raw_def m_def)
  ultimately show ?thesis by simp
qed

lemma random_uniform_range:
  assumes "a \<le> b"
  shows "a \<le> fst (random_uniform a b g) \<and> fst (random_uniform a b g) \<le> b"
proof -
  obtain u g1 where u: "random_random g = (u, g1)" by (cases "random_random g")
  have r: "0 \<le> u" "u < 1" using random_random_range [of g] by (simp_all add: u)
  have "0 \<le> (b - a) * u" using assms r by simp
  moreover have "(b - a) * u \<le> (b - a) * 1"
    using assms r by (intro mult_left_mono) simp_all
  ultimately show ?thesis by (simp add: random_uniform_def u)
qed

lemma with_outliers_casesD:
  assumes "with_outliers orat v lo hi g = (v1, g1)"
  shows "v1 = v \<or> in_outlier_band lo hi v1"
proof -
  have "in_outlier_band lo hi (PFloat (fst (random_uniform (lo - 25) lo h)))" for h
    using random_uniform_range [of "lo - 25" lo h] by simp
  moreover have "in_outlier_band lo hi (PFloat (fst (random_uniform hi (hi + 25) h)))" for h
    using random_uniform_range [of hi "hi + 25" h] by simp
  ultimately show ?thesis
    using assms
    by (auto simp: with_outliers_def split: prod.splits if_splits) (metis fst_conv)+
qed


lemma with_outliers_not_noneD:
  "with_outliers orat v lo hi g = (v1, g1) \<Longrightarrow> v \<noteq> PNone \<Longrightarrow> v1 \<noteq> PNone"
  using with_outliers_casesD [of orat v lo hi g v1 g1] by auto

lemma generate_area_not_noneD: "generate_area g = (v, g1) \<Longrightarrow> v \<noteq> PNone"
  using random_choice_mem [of "[PStr ''Camden'', PStr ''Chelsea'', PStr ''Islington'', PStr ''Southwark'',
                    PStr ''Kensington'', PStr ''Westminster'', PStr ''Greenwich'']" g]
  by (auto simp: generate_area_def)

lemma generate_vehicle_count_not_noneD: "generate_vehicle_count lib dt g = (v, g1) \<Longrightarrow> v \<noteq> PNone"
  by (auto simp: generate_vehicle_count_def split: prod.splits)

lemma generate_road_condition_not_noneD: "generate_road_condition wc g = (v, g1) \<Longrightarrow> v \<noteq> PNone"
  by (auto simp: generate_road_condition_def split: prod.splits if_splits)

lemma calculate_avg_speed_not_noneD: "calculate_avg_speed vc wc rc g = (v, g1) \<Longrightarrow> v \<noteq> PNone"
  by (auto simp: calculate_avg_speed_def Let_def split: prod.splits)

lemma determine_congestion_not_none: "determine_congestion vc sp \<noteq> PNone"
  by (cases vc; cases sp) (auto simp: determine_congestion_def bind_res_def)

lemma generate_accidents_not_noneD: "generate_accidents wc cl g = (v, g1) \<Longrightarrow> v \<noteq> PNone"
  by (auto simp: generate_accidents_def Let_def split: prod.splits if_splits)

lemma get_traffic_visibility_not_noneD: "get_traffic_visibility wv g = (v, g1) \<Longrightarrow> v \<noteq> PNone"
  by (auto simp: get_traffic_visibility_def split: prod.splits sum.splits)

lemma traffic_row_none_null:
  assumes "nr \<le> 0" and "r = fst (generate_traffic_row lib nr orat w i g)"
  shows "traffic_id r = PInt (9001 + int i) \<and> traffic_row.city r = PStr ''London'' \<and>
         area r \<noteq> PNone \<and> vehicle_count r \<noteq> PNone \<and> road_condition r \<noteq> PNone \<and>
         avg_speed_kmh r \<noteq> PNone \<and> congestion_level r \<noteq> PNone \<and>
         accident_count r \<noteq> PNone \<and> traffic_row.visibility_m r \<noteq> PNone"
  using assms determine_congestion_not_none
  by (auto simp: generate_traffic_row_def Let_def split: prod.splits
        dest!: maybe_null_neverD
        dest: generate_area_not_noneD generate_vehicle_count_not_noneD
              generate_road_condition_not_noneD calculate_avg_speed_not_noneD
              generate_accidents_not_noneD get_traffic_visibility_not_noneD
              with_outliers_not_noneD)


section \<open>A run with every draw at one half\<close>

lemma half_random:
  "random_random (Rng (\<lambda>i. 4503599627370496) p) = (1 / 2, Rng (\<lambda>i. 4503599627370496) (p + 1))"
  by (simp add: random_random_def next_raw_def)

lemma half_uniform:
  "random_uniform a b (Rng (\<lambda>i. 4503599627370496) p) = (a + (b - a) * (1 / 2), Rng (\<lambda>i. 4503599627370496) (p + 1))"
  by (simp add: random_uniform_def half_random)

lemma half_maybe_null:
  "maybe_null (1 / 10) v (Rng (\<lambda>i. 4503599627370496) p) = (v, Rng (\<lambda>i. 4503599627370496) (p + 1))"
  by (simp add: maybe_null_def half_random)

lemma half_with_outliers:
  "with_outliers (1 / 10) v lo hi (Rng (\<lambda>i. 4503599627370496) p) = (v, Rng (\<lambda>i. 4503599627370496) (p + 1))"
  by (simp add: with_outliers_def half_random)

lemma half_generate_area:
  "generate_area (Rng (\<lambda>i. 4503599627370496) p) = (PStr ''Islington'', Rng (\<lambda>i. 4503599627370496) (p + 1))"
  by (simp add: generate_area_def random_choice_def next_raw_def)

lemma half_generate_vehicle_count:
  "generate_vehicle_count lib_half dt (Rng (\<lambda>i. 4503599627370496) p) =
     (PInt 1061, Rng (\<lambda>i. 4503599627370496) (p + 1))"
  by (simp add: generate_vehicle_count_def lib_half_def random_randint_def next_raw_def)

lemma round2_70: "py_round2 70 = 70" and round2_55: "py_round2 55 = 55"
  by (simp_all add: py_round2_def round_half_even_def)

lemma half_calculate_avg_speed:
  "calculate_avg_speed (PInt 1061) (PStr ''Snow'') (PStr ''Snowy'') (Rng (\<lambda>i. 4503599627370496) p) =
     (PFloat 55, Rng (\<lambda>i. 4503599627370496) (p + 2))"
  by (simp add: calculate_avg_speed_def bind_res_def half_uniform round2_70 round2_55 Let_def)

lemma half_generate_accidents:
  "generate_accidents (PStr ''Snow'') (PStr ''Low'') (Rng (\<lambda>i. 4503599627370496) p) =
     (PInt 0, Rng (\<lambda>i. 4503599627370496) (p + 1))"
  by (simp add: generate_accidents_def half_random Let_def)

lemma half_get_traffic_visibility:
  "get_traffic_visibility (PInt 5000) (Rng (\<lambda>i. 4503599627370496) p) =
     (PInt 5153, Rng (\<lambda>i. 4503599627370496) (p + 1))"
  by (simp add: get_traffic_visibility_def bind_res_def random_randint_def next_raw_def)

lemma half_traffic_row:
  "generate_traffic_row lib_half (1 / 10) (1 / 10) snow_row 0 (Rng (\<lambda>i. 4503599627370496) 0) =
     (row_half, Rng (\<lambda>i. 4503599627370496) 19)"
  by (simp add: generate_traffic_row_def snow_row_def row_half_def half_maybe_null half_with_outliers
        half_generate_area half_generate_vehicle_count half_calculate_avg_speed
        half_generate_accidents half_get_traffic_visibility generate_road_condition_def
        determine_congestion_def bind_res_def)


lemma half_traffic_dataset:
  "generate_traffic_dataset lib_half [snow_row] 1 0 (1 / 10) (1 / 10) state_zero =
     Inr ([row_half],
       \<lparr>py_random = Rng (\<lambda>i. 4503599627370496) 19, np_random = Rng (\<lambda>i. 4503599627370496) 0\<rparr>)"
proof -
  have seed: "py_seed lib_half 43 = (\<lambda>i. 4503599627370496)" "np_seed lib_half 43 = (\<lambda>i. 4503599627370496)"
    by (simp_all add: lib_half_def)
  show ?thesis
    using dup_count_one_zero
    by (simp add: generate_traffic_dataset_def Let_def seed half_traffic_row df_sample_def
          bind_res_def state_zero_def)
qed

section \<open>A run with every draw at zero\<close>

lemma zero_random:
  "random_random (Rng (\<lambda>i. 0) p) = (0, Rng (\<lambda>i. 0) (p + 1))"
  by (simp add: random_random_def next_raw_def)

lemma zero_uniform:
  "random_uniform a b (Rng (\<lambda>i. 0) p) = (a, Rng (\<lambda>i. 0) (p + 1))"
  by (simp add: random_uniform_def zero_random)

lemma zero_maybe_null:
  "maybe_null 0 v (Rng (\<lambda>i. 0) p) = (v, Rng (\<lambda>i. 0) (p + 1))"
  by (simp add: maybe_null_def zero_random)

lemma zero_with_outliers:
  "with_outliers (1 / 10) v lo hi (Rng (\<lambda>i. 0) p) = (PFloat (lo - 25), Rng (\<lambda>i. 0) (p + 3))"
  by (simp add: with_outliers_def zero_random zero_uniform)

lemma zero_generate_area:
  "generate_area (Rng (\<lambda>i. 0) p) = (PStr ''Camden'', Rng (\<lambda>i. 0) (p + 1))"
  by (simp add: generate_area_def random_choice_def next_raw_def)

lemma zero_generate_vehicle_count:
  "generate_vehicle_count lib_zero dt (Rng (\<lambda>i. 0) p) = (PInt 100, Rng (\<lambda>i. 0) (p + 1))"
  by (simp add: generate_vehicle_count_def lib_zero_def random_randint_def next_raw_def)

lemma round2_10: "py_round2 10 = 10" and round2_m15: "py_round2 (- 15) = - 15"
  by (simp_all add: py_round2_def round_half_even_def)

lemma zero_calculate_avg_speed:
  "calculate_avg_speed (PFloat 19975) (PStr ''Snow'') (PStr ''Snowy'') (Rng (\<lambda>i. 0) p) =
     (PFloat 3, Rng (\<lambda>i. 0) (p + 2))"
  by (simp add: calculate_avg_speed_def bind_res_def zero_uniform round2_10 round2_m15 Let_def)

lemma zero_generate_accidents:
  "generate_accidents (PStr ''Snow'') (PStr ''High'') (Rng (\<lambda>i. 0) p) =
     (PInt 1, Rng (\<lambda>i. 0) (p + 2))"
  by (simp add: generate_accidents_def zero_random random_choice_def next_raw_def Let_def)

lemma zero_get_traffic_visibility:
  "get_traffic_visibility (PInt 5000) (Rng (\<lambda>i. 0) p) = (PInt 4500, Rng (\<lambda>i. 0) (p + 1))"
  by (simp add: get_traffic_visibility_def bind_res_def random_randint_def next_raw_def)

lemma zero_traffic_row:
  "generate_traffic_row lib_zero 0 (1 / 10) snow_row 0 (Rng (\<lambda>i. 0) 0) =
     (row_zero, Rng (\<lambda>i. 0) 28)"
  by (simp add: generate_traffic_row_def snow_row_def row_zero_def zero_maybe_null zero_with_outliers
        zero_generate_area zero_generate_vehicle_count zero_calculate_avg_speed
        zero_generate_accidents zero_get_traffic_visibility generate_road_condition_def
        determine_congestion_def bind_res_def)

lemma zero_traffic_dataset:
  "generate_traffic_dataset lib_zero [snow_row] 1 0 0 (1 / 10) state_zero =
     Inr ([row_zero],
       \<lparr>py_random = Rng (\<lambda>i. 0) 28, np_random = Rng (\<lambda>i. 0) 0\<rparr>)"
proof -
  have seed: "py_seed lib_zero 43 = (\<lambda>i. 0)" "np_seed lib_zero 43 = (\<lambda>i. 0)"
    by (simp_all add: lib_zero_def)
  show ?thesis
    using dup_count_one_zero
    by (simp add: generate_traffic_dataset_def Let_def seed zero_traffic_row df_sample_def
          bind_res_def state_zero_def)
qed

section \<open>Runs of the traffic generator\<close>

lemma traffic_dataset_returns:
  assumes "dup_count n d = Inr k" and "0 \<le> k" and "k \<le> int (length W)"
  shows "\<exists>tbl st1. generate_traffic_dataset lib W n d nr orat st = Inr (tbl, st1) \<and>
           length tbl = length W + nat k"
proof -
  have "row_count (generate_traffic_dataset lib W n d nr orat st) = Some (length W + nat k)"
    using assms by (simp add: traffic_dataset_rows)
  then show ?thesis
    by (auto simp: row_count_def split: sum.splits prod.splits)
qed

text \<open>A one-row weather table with no duplicates asked for gives a one-row table.\<close>

lemma traffic_one_row_returns:
  "\<exists>tbl st1. generate_traffic_dataset lib [w] 1 0 nr orat st = Inr (tbl, st1) \<and> length tbl = 1"
  using traffic_dataset_returns [OF dup_count_one_zero, of "[w]" lib nr orat st] by simp

lemma get_traffic_visibility_cases:
  "\<exists>noise. - 500 \<le> noise \<and> noise \<le> 500 \<and>
     fst (get_traffic_visibility wv g) =
       (case wv of
          PInt x \<Rightarrow> PInt (max 0 (x + noise))
        | PFloat y \<Rightarrow> PInt (max 0 (py_trunc (y + of_int noise)))
        | PNaN \<Rightarrow> PInt 10000
        | PNone \<Rightarrow> PInt 10000
        | PStr s \<Rightarrow> PInt 10000)"
proof -
  obtain noise g1 where n: "random_randint (- 500) 500 g = (noise, g1)"
    by (cases "random_randint (- 500) 500 g")
  have "- 500 \<le> noise \<and> noise \<le> 500"
    using random_randint_range [of "- 500" 500 g] by (simp add: n)
  moreover have "fst (get_traffic_visibility wv g) =
       (case wv of
          PInt x \<Rightarrow> PInt (max 0 (x + noise))
        | PFloat y \<Rightarrow> PInt (max 0 (py_trunc (y + of_int noise)))
        | PNaN \<Rightarrow> PInt 10000
        | PNone \<Rightarrow> PInt 10000
        | PStr s \<Rightarrow> PInt 10000)"
    by (cases wv) (simp_all add: get_traffic_visibility_def n bind_res_def)
  ultimately show ?thesis by blast
qed

lemma with_outliers_never: "orat \<le> 0 \<Longrightarrow> fst (with_outliers orat v lo hi g) = v"
  using random_random_range [of g]
  by (auto simp: with_outliers_def split: prod.splits)

lemma traffic_row_visibility_clean:
  assumes "nr \<le> 0" and "orat \<le> 0"
  shows "\<exists>m. traffic_row.visibility_m (fst (generate_traffic_row lib nr orat w i g)) = PInt m"
proof -
  obtain g1 g2 g3 where v: "traffic_row.visibility_m (fst (generate_traffic_row lib nr orat w i g)) =
     fst (maybe_null nr (fst (with_outliers orat
       (fst (get_traffic_visibility (weather_row.visibility_m w) g1)) 50000 120000 g2)) g3)"
    using traffic_row_visibility [of lib nr orat w i g] by blast
  obtain noise where "fst (get_traffic_visibility (weather_row.visibility_m w) g1) =
       (case weather_row.visibility_m w of
          PInt x \<Rightarrow> PInt (max 0 (x + noise))
        | PFloat y \<Rightarrow> PInt (max 0 (py_trunc (y + of_int noise)))
        | PNaN \<Rightarrow> PInt 10000
        | PNone \<Rightarrow> PInt 10000
        | PStr s \<Rightarrow> PInt 10000)"
    using get_traffic_visibility_cases [of "weather_row.visibility_m w" g1] by blast
  then have "\<exists>m. fst (get_traffic_visibility (weather_row.visibility_m w) g1) = PInt m"
    by (cases "weather_row.visibility_m w") simp_all
  then show ?thesis
    unfolding v by (simp add: maybe_null_never [OF assms(1)] with_outliers_never [OF assms(2)])
qed

text \<open>What a run of the traffic generator over a one-row weather table, with nothing
  nulled, satisfies at its only row.\<close>

lemma one_row_run:
  assumes "nr \<le> 0"
  shows "\<exists>tbl st1. generate_traffic_dataset lib [w] 1 0 nr orat st = Inr (tbl, st1) \<and>
           road_condition (tbl ! 0) \<noteq> PNone \<and> traffic_row.visibility_m (tbl ! 0) \<noteq> PNone \<and>
           (orat \<le> 0 \<longrightarrow> (\<exists>m. traffic_row.visibility_m (tbl ! 0) = PInt m))"
proof -
  obtain tbl st1 where r: "generate_traffic_dataset lib [w] 1 0 nr orat st = Inr (tbl, st1)"
    using traffic_one_row_returns [of lib w nr orat st] by blast
  obtain g1 where row: "tbl ! 0 = fst (generate_traffic_row lib nr orat w 0 g1)"
    using traffic_dataset_nth [OF r, of 0] by auto
  have "road_condition (tbl ! 0) \<noteq> PNone" "traffic_row.visibility_m (tbl ! 0) \<noteq> PNone"
    using traffic_row_none_null [OF assms, of "tbl ! 0" lib orat w 0 g1] row by simp_all
  moreover have "\<exists>m. traffic_row.visibility_m (tbl ! 0) = PInt m" if "orat \<le> 0"
    unfolding row using traffic_row_visibility_clean [OF assms that] .
  ultimately show ?thesis using r by blast
qed

section \<open>C1: the row-count law\<close>

text \<open>
  C1. Let \<open>k\<close> be \<open>int(n * d)\<close> as the program computes it: the row count \<open>n\<close> converted
  to a float, multiplied by the duplicate ratio \<open>d\<close> with the product rounded to
  binary64, and truncated (\<open>dup_count\<close>). The weather generator called for \<open>n\<close> base rows
  returns a table of exactly \<open>n + k\<close> rows whenever \<open>0 \<le> k \<le> n\<close>; when \<open>k\<close> is negative
  or exceeds \<open>n\<close>, \<open>df.sample\<close> raises \<open>ValueError\<close> and no table is returned. The traffic
  generator called on a weather table of length \<open>L\<close> with its \<open>n_rows\<close> parameter equal
  to \<open>L\<close> returns exactly \<open>L + k\<close> rows whenever \<open>0 \<le> k \<le> L\<close>, and raises \<open>ValueError\<close>
  otherwise.
\<close>

theorem row_count_law:
  "(dup_count n d = Inr k \<and> 0 \<le> k \<and> k \<le> int n \<longrightarrow>
      row_count (generate_weather_dataset lib n d nr orat bfr st) = Some (n + nat k)) \<and>
   (dup_count n d = Inr k \<and> k < 0 \<longrightarrow>
      generate_weather_dataset lib n d nr orat bfr st =
        Inl (ValueError ''A negative number of rows requested'')) \<and>
   (dup_count n d = Inr k \<and> int n < k \<longrightarrow>
      generate_weather_dataset lib n d nr orat bfr st =
        Inl (ValueError ''Cannot take a larger sample than population'')) \<and>
   (dup_count (length W) d = Inr k \<and> 0 \<le> k \<and> k \<le> int (length W) \<longrightarrow>
      row_count (generate_traffic_dataset lib W (length W) d nr orat st) =
        Some (length W + nat k)) \<and>
   (dup_count (length W) d = Inr k \<and> k < 0 \<longrightarrow>
      generate_traffic_dataset lib W (length W) d nr orat st =
        Inl (ValueError ''A negative number of rows requested'')) \<and>
   (dup_count (length W) d = Inr k \<and> int (length W) < k \<longrightarrow>
      generate_traffic_dataset lib W (length W) d nr orat st =
        Inl (ValueError ''Cannot take a larger sample than population''))"
proof (intro conjI impI)
  assume "dup_count n d = Inr k \<and> 0 \<le> k \<and> k \<le> int n"
  then show "row_count (generate_weather_dataset lib n d nr orat bfr st) = Some (n + nat k)"
    by (simp add: weather_dataset_rows)
next
  assume "dup_count n d = Inr k \<and> k < 0"
  then show "generate_weather_dataset lib n d nr orat bfr st =
        Inl (ValueError ''A negative number of rows requested'')"
    using weather_dataset_raises(1) by blast
next
  assume "dup_count n d = Inr k \<and> int n < k"
  then show "generate_weather_dataset lib n d nr orat bfr st =
        Inl (ValueError ''Cannot take a larger sample than population'')"
    using weather_dataset_raises(2) by blast
next
  assume "dup_count (length W) d = Inr k \<and> 0 \<le> k \<and> k \<le> int (length W)"
  then show "row_count (generate_traffic_dataset lib W (length W) d nr orat st) =
        Some (length W + nat k)"
    by (simp add: traffic_dataset_rows)
next
  assume "dup_count (length W) d = Inr k \<and> k < 0"
  then show "generate_traffic_dataset lib W (length W) d nr orat st =
        Inl (ValueError ''A negative number of rows requested'')"
    using traffic_dataset_raises(1) by blast
next
  assume "dup_count (length W) d = Inr k \<and> int (length W) < k"
  then show "generate_traffic_dataset lib W (length W) d nr orat st =
        Inl (ValueError ''Cannot take a larger sample than population'')"
    using traffic_dataset_raises(2) by blast
qed

text \<open>
  The default call of the weather script returns 5250 rows; a traffic run over 40
  weather rows at the default ratio returns 42; a ratio of \<open>- 2\<close> or \<open>2\<close> on one row
  makes either generator raise.
\<close>

theorem row_count_law_witness:
  "dup_count 5000 ratio_default = Inr 250 \<and>
   row_count (generate_weather_dataset lib_half 5000 ratio_default (1 / 10) (1 / 10) (1 / 100) state_zero)
     = Some 5250 \<and>
   dup_count 1 (- 2) = Inr (- 2) \<and>
   generate_weather_dataset lib_half 1 (- 2) (1 / 10) (1 / 10) (1 / 100) state_zero =
     Inl (ValueError ''A negative number of rows requested'') \<and>
   dup_count 1 2 = Inr 2 \<and>
   generate_weather_dataset lib_half 1 2 (1 / 10) (1 / 10) (1 / 100) state_zero =
     Inl (ValueError ''Cannot take a larger sample than population'') \<and>
   dup_count 40 ratio_default = Inr 2 \<and>
   row_count (generate_traffic_dataset lib_half (replicate 40 snow_row) 40 ratio_default (1 / 10) (1 / 10)
                state_zero) = Some 42 \<and>
   generate_traffic_dataset lib_half [snow_row] 1 (- 2) (1 / 10) (1 / 10) state_zero =
     Inl (ValueError ''A negative number of rows requested'') \<and>
   generate_traffic_dataset lib_half [snow_row] 1 2 (1 / 10) (1 / 10) state_zero =
     Inl (ValueError ''Cannot take a larger sample than population'')"
proof -
  have a: "row_count (generate_weather_dataset lib_half 5000 ratio_default (1 / 10) (1 / 10) (1 / 100)
                        state_zero) = Some 5250"
    using row_count_law [where n = 5000 and d = ratio_default and k = 250 and lib = lib_half
            and nr = "1 / 10" and orat = "1 / 10" and bfr = "1 / 100" and st = state_zero]
          dup_count_default
    by simp
  have b: "generate_weather_dataset lib_half 1 (- 2) (1 / 10) (1 / 10) (1 / 100) state_zero =
             Inl (ValueError ''A negative number of rows requested'')"
    using row_count_law [where n = 1 and d = "- 2" and k = "- 2" and lib = lib_half
            and nr = "1 / 10" and orat = "1 / 10" and bfr = "1 / 100" and st = state_zero]
          dup_count_one_minus_two
    by simp
  have c: "generate_weather_dataset lib_half 1 2 (1 / 10) (1 / 10) (1 / 100) state_zero =
             Inl (ValueError ''Cannot take a larger sample than population'')"
    using row_count_law [where n = 1 and d = 2 and k = 2 and lib = lib_half
            and nr = "1 / 10" and orat = "1 / 10" and bfr = "1 / 100" and st = state_zero]
          dup_count_one_two
    by simp
  have d: "row_count (generate_traffic_dataset lib_half (replicate 40 snow_row) 40 ratio_default
                        (1 / 10) (1 / 10) state_zero) = Some 42"
    using row_count_law [where W = "replicate 40 snow_row" and d = ratio_default and k = 2
            and lib = lib_half and nr = "1 / 10" and orat = "1 / 10" and st = state_zero]
          dup_count_forty
    by simp
  have e: "generate_traffic_dataset lib_half [snow_row] 1 (- 2) (1 / 10) (1 / 10) state_zero =
             Inl (ValueError ''A negative number of rows requested'')"
    using row_count_law [where W = "[snow_row]" and d = "- 2" and k = "- 2" and lib = lib_half
            and nr = "1 / 10" and orat = "1 / 10" and st = state_zero]
          dup_count_one_minus_two
    by simp
  have f: "generate_traffic_dataset lib_half [snow_row] 1 2 (1 / 10) (1 / 10) state_zero =
             Inl (ValueError ''Cannot take a larger sample than population'')"
    using row_count_law [where W = "[snow_row]" and d = 2 and k = 2 and lib = lib_half
            and nr = "1 / 10" and orat = "1 / 10" and st = state_zero]
          dup_count_one_two
    by simp
  show ?thesis
    using a b c d e f dup_count_default dup_count_one_minus_two dup_count_one_two dup_count_forty
    by blast
qed

text \<open>
  The claim as stated fails three times. The weather generator asked for one row with
  duplicate ratio 2 returns no table. Asked for three rows at the ratio \<open>1 / 3\<close>, whose
  float is just below one third, it returns four rows, while the floor of the product
  \<open>3 * d\<close> is 0: the float product rounds up to 1. And a weather table of 5250 rows
  (5000 base rows and their 250 duplicates, as the weather script writes it) given to
  the traffic generator with its default \<open>n_rows = 5000\<close> yields 5500 rows, not
  \<open>5250 + floor (5250 * d) = 5512\<close>: the tail is computed from \<open>n_rows\<close>, not from the
  length of the weather table.
\<close>

theorem row_count_law_counterexample:
  "row_count (generate_weather_dataset lib_half 1 2 (1 / 10) (1 / 10) (1 / 100) state_zero) = None \<and>
   row_count (generate_weather_dataset lib_half 3 ratio_third (1 / 10) (1 / 10) (1 / 100) state_zero)
     = Some 4 \<and>
   3 + nat \<lfloor>of_nat 3 * ratio_third\<rfloor> = (3::nat) \<and>
   row_count (generate_traffic_dataset lib_half (replicate 5250 snow_row) 5000 ratio_default (1 / 10) (1 / 10)
                state_zero) = Some 5500 \<and>
   length (replicate 5250 snow_row) +
     nat \<lfloor>of_nat (length (replicate 5250 snow_row)) * ratio_default\<rfloor> = 5512"
proof -
  have a: "row_count (generate_weather_dataset lib_half 1 2 (1 / 10) (1 / 10) (1 / 100) state_zero) = None"
    using dup_count_one_two by (simp add: weather_dataset_rows)
  have b: "row_count (generate_weather_dataset lib_half 3 ratio_third (1 / 10) (1 / 10) (1 / 100)
                        state_zero) = Some 4"
    by (simp add: weather_dataset_rows dup_count_third)
  have "\<lfloor>rat_of_nat 3 * ratio_third\<rfloor> = 0"
    unfolding ratio_third_def by (rule floor_unique) simp_all
  then have c: "3 + nat \<lfloor>of_nat 3 * ratio_third\<rfloor> = (3::nat)" by simp
  have d: "row_count (generate_traffic_dataset lib_half (replicate 5250 snow_row) 5000 ratio_default
                        (1 / 10) (1 / 10) state_zero) = Some 5500"
    by (simp add: traffic_dataset_rows dup_count_default)
  have "\<lfloor>rat_of_nat 5250 * ratio_default\<rfloor> = 262"
    unfolding ratio_default_def by (rule floor_unique) simp_all
  then have e: "length (replicate 5250 snow_row) +
     nat \<lfloor>of_nat (length (replicate 5250 snow_row)) * ratio_default\<rfloor> = 5512" by simp
  show ?thesis using a b c d e by blast
qed

section \<open>C2: an empty join is reported and nothing is written\<close>

lemma set_cells_id: "map2 (\<lambda>r v. r[j := v]) rs (map (\<lambda>r. r ! j) rs) = rs"
  by (induction rs) simp_all

lemma convert_datetime_zero:
  "col_index c (columns df) \<noteq> None \<Longrightarrow> convert_datetime lib_zero c df = Inr df"
  by (auto simp: convert_datetime_def lib_zero_def set_cells_id)

lemma merge_other_empty:
  "pd_merge_inner (rename_column ''visibility_m'' ''visibility_traffic'' frame_t_other)
     (rename_column ''visibility_m'' ''visibility_weather'' frame_w) [''date_time'', ''city''] =
   Inr \<lparr>columns = [''traffic_id'', ''date_time'', ''city'', ''visibility_traffic'',
                    ''weather_id'', ''visibility_weather''],
        rows = []\<rparr>"
  unfolding pd_merge_inner_def Let_def frame_t_other_def frame_w_def rename_column_def
  by (simp add: key_of_def non_key_def)

lemma merge_renamed_t_w:
  "pd_merge_inner (rename_column ''visibility_m'' ''visibility_traffic'' frame_t)
     (rename_column ''visibility_m'' ''visibility_weather'' frame_w) [''date_time'', ''city''] =
   Inr \<lparr>columns = [''traffic_id'', ''date_time'', ''city'', ''visibility_traffic'',
                    ''weather_id'', ''visibility_weather''],
        rows = [[PInt 9002, PStr ''2024-01-01 02:00'', PStr ''London'', PInt 9100, PInt 5002, PInt 9000]]\<rparr>"
  unfolding pd_merge_inner_def Let_def frame_t_def frame_w_def rename_column_def
  by (simp add: key_of_def non_key_def)

text \<open>
  C2. When both silver tables are read and converted and their inner join on
  (timestamp, city) has no rows, \<open>merge_data\<close> raises the validation error, which its
  handler prints as the last line; the store is left as it was, and neither the line
  announcing the write nor the line reporting success is printed. When the join has
  rows, the merged table is written to the gold path and success is the last line.
\<close>

theorem merge_zero_rows_reported:
  assumes "read_parquet st ''s3://silver/weather_cleaned.parquet'' = Inr w0"
    and "read_parquet st ''s3://silver/traffic_cleaned.parquet'' = Inr t0"
    and "convert_datetime lib ''date_time'' w0 = Inr w1"
    and "convert_datetime lib ''date_time'' t0 = Inr t1"
    and "pd_merge_inner (rename_column ''visibility_m'' ''visibility_traffic'' t1)
           (rename_column ''visibility_m'' ''visibility_weather'' w1) [''date_time'', ''city''] = Inr m"
  shows "(rows m = [] \<longrightarrow>
            fst (merge_data lib st) = st \<and>
            last (snd (merge_data lib st)) =
              ErrorDuringMerge (ValueError ''Merge resulted in 0 rows! Check date_time formats.'') \<and>
            SavingTo ''s3://gold/merged_data/merged_data.parquet'' \<notin> set (snd (merge_data lib st)) \<and>
            Msg ''Merged dataset saved to Gold Layer.'' \<notin> set (snd (merge_data lib st))) \<and>
         (rows m \<noteq> [] \<longrightarrow>
            fst (merge_data lib st) = st(''s3://gold/merged_data/merged_data.parquet'' \<mapsto> m) \<and>
            last (snd (merge_data lib st)) = Msg ''Merged dataset saved to Gold Layer.'')"
  by (simp add: merge_data_def merge_try_def Let_def assms)

theorem merge_zero_rows_reported_witness:
  "read_parquet (silver_store frame_w frame_t_other) ''s3://silver/weather_cleaned.parquet'' = Inr frame_w \<and>
   read_parquet (silver_store frame_w frame_t_other) ''s3://silver/traffic_cleaned.parquet'' = Inr frame_t_other \<and>
   convert_datetime lib_zero ''date_time'' frame_w = Inr frame_w \<and>
   convert_datetime lib_zero ''date_time'' frame_t_other = Inr frame_t_other \<and>
   pd_merge_inner (rename_column ''visibility_m'' ''visibility_traffic'' frame_t_other)
     (rename_column ''visibility_m'' ''visibility_weather'' frame_w) [''date_time'', ''city''] =
     Inr \<lparr>columns = [''traffic_id'', ''date_time'', ''city'', ''visibility_traffic'',
                      ''weather_id'', ''visibility_weather''],
          rows = []\<rparr> \<and>
   fst (merge_data lib_zero (silver_store frame_w frame_t_other)) = silver_store frame_w frame_t_other \<and>
   last (snd (merge_data lib_zero (silver_store frame_w frame_t_other))) =
     ErrorDuringMerge (ValueError ''Merge resulted in 0 rows! Check date_time formats.'') \<and>
   SavingTo ''s3://gold/merged_data/merged_data.parquet''
     \<notin> set (snd (merge_data lib_zero (silver_store frame_w frame_t_other))) \<and>
   fst (merge_data lib_zero (silver_store frame_w frame_t)) ''s3://gold/merged_data/merged_data.parquet'' =
     Some \<lparr>columns = [''traffic_id'', ''date_time'', ''city'', ''visibility_traffic'',
                       ''weather_id'', ''visibility_weather''],
           rows = [[PInt 9002, PStr ''2024-01-01 02:00'', PStr ''London'', PInt 9100, PInt 5002, PInt 9000]]\<rparr>"
proof -
  have a: "read_parquet (silver_store frame_w t) ''s3://silver/weather_cleaned.parquet'' = Inr frame_w" for t
    by (simp add: read_parquet_def silver_store_def)
  have b: "read_parquet (silver_store frame_w t) ''s3://silver/traffic_cleaned.parquet'' = Inr t" for t
    by (simp add: read_parquet_def silver_store_def)
  have c: "convert_datetime lib_zero ''date_time'' frame_w = Inr frame_w"
    by (rule convert_datetime_zero) (simp add: frame_w_def)
  have d: "convert_datetime lib_zero ''date_time'' frame_t_other = Inr frame_t_other"
    by (rule convert_datetime_zero) (simp add: frame_t_other_def)
  have d2: "convert_datetime lib_zero ''date_time'' frame_t = Inr frame_t"
    by (rule convert_datetime_zero) (simp add: frame_t_def)
  show ?thesis
    using merge_zero_rows_reported [OF a b c d merge_other_empty]
          merge_zero_rows_reported [OF a b c d2 merge_renamed_t_w]
          a b c d merge_other_empty
    by simp
qed

section \<open>C3: the row count of the merged table\<close>

lemma filter_distinct_le1: "distinct (map k xs) \<Longrightarrow> length (filter (\<lambda>x. k x = v) xs) \<le> 1"
proof (induction xs)
  case Nil
  show ?case by simp
next
  case (Cons x xs)
  show ?case
  proof (cases "k x = v")
    case True
    then have "v \<notin> k ` set xs" using Cons.prems by auto
    then have "filter (\<lambda>y. k y = v) xs = []" by (auto simp: filter_empty_conv)
    then show ?thesis using True by simp
  next
    case False
    then show ?thesis using Cons by simp
  qed
qed

lemma join_count_le_left:
  "distinct (map kr R) \<Longrightarrow> (\<Sum>l\<leftarrow>L. length (filter (\<lambda>r. kr r = kl l) R)) \<le> length L"
proof (induction L)
  case Nil
  show ?case by simp
next
  case (Cons l L)
  have "length (filter (\<lambda>r. kr r = kl l) R) \<le> 1"
    using filter_distinct_le1 [OF Cons.prems] .
  then show ?case using Cons by simp
qed

lemma join_count_le_right:
  "distinct (map kl L) \<Longrightarrow> (\<Sum>l\<leftarrow>L. length (filter (\<lambda>r. kr r = kl l) R)) \<le> length R"
proof (induction R)
  case Nil
  show ?case by simp
next
  case (Cons r R)
  have split: "(\<Sum>l\<leftarrow>L. length (filter (\<lambda>x. kr x = kl l) (r # R))) =
        (\<Sum>l\<leftarrow>L. (if kr r = kl l then 1 else 0)) + (\<Sum>l\<leftarrow>L. length (filter (\<lambda>x. kr x = kl l) R))"
    by (induction L) auto
  have "(\<Sum>l\<leftarrow>L. (if kr r = kl l then 1 else 0 :: nat)) = length (filter (\<lambda>l. kl l = kr r) L)"
    by (induction L) auto
  also have "\<dots> \<le> 1" using filter_distinct_le1 [OF Cons.prems] .
  finally show ?case using Cons split by simp
qed

lemma merge_rows_length:
  "pd_merge_inner left right keys = Inr m \<Longrightarrow>
     length (rows m) =
       (\<Sum>l\<leftarrow>rows left. length (filter (\<lambda>r. key_of (columns right) keys r = key_of (columns left) keys l) (rows right)))"
  by (auto simp: pd_merge_inner_def Let_def length_concat comp_def split: list.splits)

text \<open>
  C3. When the (timestamp, city) keys are unique within the traffic table and within
  the weather table, the inner join has at most as many rows as the smaller of the two
  tables. (Without unique keys every pair of rows with equal keys is a row of the
  result.)
\<close>

theorem merge_row_count_bound:
  assumes "pd_merge_inner left right keys = Inr m"
    and "distinct (map (key_of (columns left) keys) (rows left))"
    and "distinct (map (key_of (columns right) keys) (rows right))"
  shows "length (rows m) \<le> min (length (rows left)) (length (rows right))"
  using merge_rows_length [OF assms(1)]
        join_count_le_left [OF assms(3), of "key_of (columns left) keys" "rows left"]
        join_count_le_right [OF assms(2), of "key_of (columns right) keys" "rows right"]
  by simp

lemma merge_frame_t_w:
  "pd_merge_inner frame_t frame_w [''date_time'', ''city''] =
     Inr \<lparr>columns = [''traffic_id'', ''date_time'', ''city'', ''visibility_m_x'', ''weather_id'', ''visibility_m_y''],
          rows = [[PInt 9002, PStr ''2024-01-01 02:00'', PStr ''London'', PInt 9100, PInt 5002, PInt 9000]]\<rparr>"
  unfolding pd_merge_inner_def Let_def frame_t_def frame_w_def
  by (simp add: key_of_def non_key_def)

theorem merge_row_count_bound_witness:
  "pd_merge_inner frame_t frame_w [''date_time'', ''city''] =
     Inr \<lparr>columns = [''traffic_id'', ''date_time'', ''city'', ''visibility_m_x'', ''weather_id'', ''visibility_m_y''],
          rows = [[PInt 9002, PStr ''2024-01-01 02:00'', PStr ''London'', PInt 9100, PInt 5002, PInt 9000]]\<rparr> \<and>
   distinct (map (key_of (columns frame_t) [''date_time'', ''city'']) (rows frame_t)) \<and>
   distinct (map (key_of (columns frame_w) [''date_time'', ''city'']) (rows frame_w)) \<and>
   length [[PInt 9002, PStr ''2024-01-01 02:00'', PStr ''London'', PInt 9100, PInt 5002, PInt 9000]]
     \<le> min (length (rows frame_t)) (length (rows frame_w))"
proof -
  have a: "distinct (map (key_of (columns frame_t) [''date_time'', ''city'']) (rows frame_t))"
    by (simp add: frame_t_def key_of_def)
  have b: "distinct (map (key_of (columns frame_w) [''date_time'', ''city'']) (rows frame_w))"
    by (simp add: frame_w_def key_of_def)
  show ?thesis
    using merge_row_count_bound [OF merge_frame_t_w a b] merge_frame_t_w a b by simp
qed

text \<open>
  The claim as stated, for every pair of tables, fails: two tables of two rows each that
  hold the same key twice merge into four rows.
\<close>

theorem merge_row_count_bound_counterexample:
  "frame_rows (pd_merge_inner frame_t_dup frame_w_dup [''date_time'', ''city'']) = Some 4 \<and>
   length (rows frame_t_dup) = 2 \<and> length (rows frame_w_dup) = 2"
  unfolding frame_rows_def pd_merge_inner_def Let_def frame_t_dup_def frame_w_dup_def
  by (simp add: key_of_def non_key_def)

section \<open>C4: determinism\<close>

text \<open>
  C4. Both generators reseed the two global random generators before anything else, so
  for a fixed configuration (and, for the traffic generator, a fixed weather table) the
  returned table, and the generator states left behind, do not depend on the state the
  process was in when the run started: any two runs return the same result.
\<close>

theorem generators_deterministic:
  "generate_weather_dataset lib n d nr orat bfr s1 = generate_weather_dataset lib n d nr orat bfr s2 \<and>
   generate_traffic_dataset lib W n d nr orat s1 = generate_traffic_dataset lib W n d nr orat s2"
  by (simp add: generate_weather_dataset_def generate_traffic_dataset_def Let_def)

section \<open>C5: the join key fields of a traffic row\<close>

lemma traffic_row_ignores_city:
  "generate_traffic_row lib nr orat (w\<lparr>weather_row.city := c\<rparr>) i g = generate_traffic_row lib nr orat w i g"
  by (simp add: generate_traffic_row_def)

lemma traffic_row_city_cases:
  "traffic_row.city (fst (generate_traffic_row lib nr orat w i g)) \<in> {PNone, PStr ''London''} \<and>
   (nr \<le> 0 \<longrightarrow> traffic_row.city (fst (generate_traffic_row lib nr orat w i g)) = PStr ''London'') \<and>
   (1 \<le> nr \<longrightarrow> traffic_row.city (fst (generate_traffic_row lib nr orat w i g)) = PNone)"
proof -
  obtain g1 g2 where
    c: "traffic_row.city (fst (generate_traffic_row lib nr orat w i g)) = fst (maybe_null nr (PStr ''London'') g2)"
    using traffic_row_id_city [of lib nr orat w i g] by blast
  show ?thesis
    unfolding c
    using maybe_null_cases [of nr "PStr ''London''" g2] maybe_null_never [of nr "PStr ''London''" g2]
          maybe_null_always [of nr "PStr ''London''" g2]
    by auto
qed

text \<open>
  C5. For every index \<open>j\<close> of the weather table, the traffic row at index \<open>j\<close> has the
  timestamp of the weather row at index \<open>j\<close>, copied unchanged. The city is not copied:
  it is the constant London passed through the traffic generator's own \<open>maybe_null\<close>,
  so it is London or null whatever the weather row's city is (always London when the
  null ratio is at most 0, always null when it is at least 1).
\<close>

theorem timestamp_copied_city_regenerated:
  assumes "generate_traffic_dataset lib W n d nr orat st = Inr (tbl, st1)" and "j < length W"
  shows "traffic_row.date_time (tbl ! j) = weather_row.date_time (W ! j) \<and>
         traffic_row.city (tbl ! j) \<in> {PNone, PStr ''London''} \<and>
         (nr \<le> 0 \<longrightarrow> traffic_row.city (tbl ! j) = PStr ''London'') \<and>
         (1 \<le> nr \<longrightarrow> traffic_row.city (tbl ! j) = PNone)"
proof -
  obtain g1 where row: "tbl ! j = fst (generate_traffic_row lib nr orat (W ! j) j g1)"
    using traffic_dataset_nth [OF assms] by blast
  show ?thesis
    unfolding row
    using traffic_row_date_time [of lib nr orat "W ! j" j g1]
          traffic_row_city_cases [of lib nr orat "W ! j" j g1]
    by simp
qed

theorem timestamp_copied_city_regenerated_witness:
  "generate_traffic_dataset lib_half [snow_row] 1 0 (1 / 10) (1 / 10) state_zero =
     Inr ([row_half], \<lparr>py_random = Rng (\<lambda>i. 4503599627370496) 19,
                        np_random = Rng (\<lambda>i. 4503599627370496) 0\<rparr>) \<and>
   0 < length [snow_row] \<and>
   traffic_row.date_time ([row_half] ! 0) = weather_row.date_time ([snow_row] ! 0) \<and>
   traffic_row.city ([row_half] ! 0) \<in> {PNone, PStr ''London''} \<and>
   generate_traffic_dataset lib_zero [snow_row] 1 0 0 (1 / 10) state_zero =
     Inr ([row_zero], \<lparr>py_random = Rng (\<lambda>i. 0) 28, np_random = Rng (\<lambda>i. 0) 0\<rparr>) \<and>
   (0::rat) \<le> 0 \<and> traffic_row.city ([row_zero] ! 0) = PStr ''London'' \<and>
   \<not> isl (generate_traffic_dataset lib_zero [snow_row] 1 0 1 (1 / 10) state_zero) \<and>
   (1::rat) \<le> 1 \<and>
   traffic_row.city (fst (projr (generate_traffic_dataset lib_zero [snow_row] 1 0 1 (1 / 10) state_zero)) ! 0)
     = PNone"
proof -
  obtain t1 s1 where r1: "generate_traffic_dataset lib_zero [snow_row] 1 0 1 (1 / 10) state_zero = Inr (t1, s1)"
    using traffic_one_row_returns [of lib_zero snow_row 1 "1 / 10" state_zero] by blast
  have a: "traffic_row.date_time ([row_half] ! 0) = weather_row.date_time ([snow_row] ! 0) \<and>
           traffic_row.city ([row_half] ! 0) \<in> {PNone, PStr ''London''}"
    using timestamp_copied_city_regenerated [OF half_traffic_dataset, of 0] by simp
  have b: "traffic_row.city ([row_zero] ! 0) = PStr ''London''"
    using timestamp_copied_city_regenerated [OF zero_traffic_dataset, of 0] by simp
  have c: "traffic_row.city (t1 ! 0) = PNone"
    using timestamp_copied_city_regenerated [OF r1, of 0] by simp
  have d: "\<not> isl (generate_traffic_dataset lib_zero [snow_row] 1 0 1 (1 / 10) state_zero)"
    "fst (projr (generate_traffic_dataset lib_zero [snow_row] 1 0 1 (1 / 10) state_zero)) = t1"
    unfolding r1 by simp_all
  show ?thesis
    unfolding d(2) using a b c d(1) half_traffic_dataset zero_traffic_dataset by (intro conjI) simp_all
qed

text \<open>
  The claim as stated fails for the city: from a weather row whose city is null, the
  traffic row generated has the city London. (By \<open>traffic_row_city_cases\<close> this is so
  for every random source once the null ratio is 0, and by \<open>traffic_row_ignores_city\<close>
  the generated row never depends on the weather row's city.)
\<close>

theorem timestamp_copied_city_regenerated_counterexample:
  "generate_traffic_dataset lib_half [snow_row\<lparr>weather_row.city := PNone\<rparr>] 1 0 (1 / 10) (1 / 10) state_zero =
     Inr ([row_half], \<lparr>py_random = Rng (\<lambda>i. 4503599627370496) 19,
                        np_random = Rng (\<lambda>i. 4503599627370496) 0\<rparr>) \<and>
   weather_row.city (snow_row\<lparr>weather_row.city := PNone\<rparr>) = PNone \<and>
   traffic_row.city row_half = PStr ''London''"
proof -
  have "generate_traffic_dataset lib_half [snow_row\<lparr>weather_row.city := PNone\<rparr>] 1 0 (1 / 10) (1 / 10) state_zero =
        generate_traffic_dataset lib_half [snow_row] 1 0 (1 / 10) (1 / 10) state_zero"
    by (simp add: generate_traffic_dataset_def traffic_row_ignores_city)
  then show ?thesis
    using half_traffic_dataset by (simp add: row_half_def)
qed

section \<open>C6: which fields pass through the null injector\<close>





section \<open>C7: the weather condition cascade\<close>





section \<open>C8: the road condition follows the weather condition\<close>

lemma generate_road_condition_cases:
  "fst (generate_road_condition wc g) =
     (if wc = PStr ''Snow'' then PStr ''Snowy''
      else if wc = PStr ''Rain'' \<or> wc = PStr ''Storm'' then PStr ''Wet''
      else if fst (random_random g) < 1 / 20 then PStr ''Damaged'' else PStr ''Dry'')"
  by (simp add: generate_road_condition_def split: prod.splits)

text \<open>
  C8. For every index \<open>j\<close> of the weather table whose traffic row has a road condition
  that was not nulled: a weather condition Snow gives Snowy, Rain or Storm gives Wet,
  and any other weather condition (a null one too) gives Damaged or Dry; there
  \<open>generate_road_condition\<close> returns Damaged exactly when its draw is below 0.05.
\<close>

theorem road_condition_forced:
  assumes "generate_traffic_dataset lib W n d nr orat st = Inr (tbl, st1)" and "j < length W"
    and "road_condition (tbl ! j) \<noteq> PNone"
  shows "(weather_condition (W ! j) = PStr ''Snow'' \<longrightarrow> road_condition (tbl ! j) = PStr ''Snowy'') \<and>
         (weather_condition (W ! j) = PStr ''Rain'' \<or> weather_condition (W ! j) = PStr ''Storm''
            \<longrightarrow> road_condition (tbl ! j) = PStr ''Wet'') \<and>
         (weather_condition (W ! j) \<noteq> PStr ''Snow'' \<and> weather_condition (W ! j) \<noteq> PStr ''Rain'' \<and>
          weather_condition (W ! j) \<noteq> PStr ''Storm''
            \<longrightarrow> road_condition (tbl ! j) = PStr ''Damaged'' \<or> road_condition (tbl ! j) = PStr ''Dry'') \<and>
         (wc \<noteq> PStr ''Snow'' \<and> wc \<noteq> PStr ''Rain'' \<and> wc \<noteq> PStr ''Storm''
            \<longrightarrow> fst (generate_road_condition wc g) =
                  (if fst (random_random g) < 1 / 20 then PStr ''Damaged'' else PStr ''Dry''))"
proof -
  obtain g1 where row: "tbl ! j = fst (generate_traffic_row lib nr orat (W ! j) j g1)"
    using traffic_dataset_nth [OF assms(1,2)] by blast
  obtain g2 g3 where rc: "road_condition (tbl ! j) =
      fst (maybe_null nr (fst (generate_road_condition (weather_condition (W ! j)) g2)) g3)"
    using traffic_row_road_condition [of lib nr orat "W ! j" j g1] row by auto
  have "road_condition (tbl ! j) = fst (generate_road_condition (weather_condition (W ! j)) g2)"
    using rc assms(3)
          maybe_null_cases [of nr "fst (generate_road_condition (weather_condition (W ! j)) g2)" g3]
    by auto
  then show ?thesis
    by (simp add: generate_road_condition_cases)
qed

theorem road_condition_forced_witness:
  "generate_traffic_dataset lib_half [snow_row] 1 0 (1 / 10) (1 / 10) state_zero =
     Inr ([row_half], \<lparr>py_random = Rng (\<lambda>i. 4503599627370496) 19,
                        np_random = Rng (\<lambda>i. 4503599627370496) 0\<rparr>) \<and>
   0 < length [snow_row] \<and> road_condition ([row_half] ! 0) \<noteq> PNone \<and>
   weather_condition ([snow_row] ! 0) = PStr ''Snow'' \<and>
   road_condition ([row_half] ! 0) = PStr ''Snowy'' \<and>
   \<not> isl (generate_traffic_dataset lib_zero [snow_row\<lparr>weather_condition := PStr ''Rain''\<rparr>] 1 0 0 (1 / 10) state_zero) \<and>
   road_condition (fst (projr (generate_traffic_dataset lib_zero
       [snow_row\<lparr>weather_condition := PStr ''Rain''\<rparr>] 1 0 0 (1 / 10) state_zero)) ! 0) = PStr ''Wet'' \<and>
   \<not> isl (generate_traffic_dataset lib_zero [snow_row\<lparr>weather_condition := PStr ''Clear''\<rparr>] 1 0 0 (1 / 10) state_zero) \<and>
   (road_condition (fst (projr (generate_traffic_dataset lib_zero
       [snow_row\<lparr>weather_condition := PStr ''Clear''\<rparr>] 1 0 0 (1 / 10) state_zero)) ! 0) = PStr ''Damaged'' \<or>
    road_condition (fst (projr (generate_traffic_dataset lib_zero
       [snow_row\<lparr>weather_condition := PStr ''Clear''\<rparr>] 1 0 0 (1 / 10) state_zero)) ! 0) = PStr ''Dry'') \<and>
   PStr ''Clear'' \<noteq> PStr ''Snow'' \<and> PStr ''Clear'' \<noteq> PStr ''Rain'' \<and> PStr ''Clear'' \<noteq> PStr ''Storm'' \<and>
   fst (generate_road_condition (PStr ''Clear'') (Rng (\<lambda>i. 0) 0)) = PStr ''Damaged''"
proof -
  have a: "road_condition ([row_half] ! 0) \<noteq> PNone" by (simp add: row_half_def)
  have s: "road_condition ([row_half] ! 0) = PStr ''Snowy'' \<and>
           fst (generate_road_condition (PStr ''Clear'') (Rng (\<lambda>i. 0) 0)) = PStr ''Damaged''"
    using road_condition_forced [OF half_traffic_dataset _ a, where wc = "PStr ''Clear''" and g = "Rng (\<lambda>i. 0) 0"]
    by (simp add: snow_row_def zero_random)
  obtain t2 s2 where r2:
    "generate_traffic_dataset lib_zero [snow_row\<lparr>weather_condition := PStr ''Rain''\<rparr>] 1 0 0 (1 / 10) state_zero = Inr (t2, s2)"
    "road_condition (t2 ! 0) \<noteq> PNone"
    using one_row_run [OF order_refl, of lib_zero "snow_row\<lparr>weather_condition := PStr ''Rain''\<rparr>" "1 / 10" state_zero]
    by blast
  have wet: "road_condition (t2 ! 0) = PStr ''Wet''"
    using road_condition_forced [OF r2(1) _ r2(2)] by simp
  obtain t3 s3 where r3:
    "generate_traffic_dataset lib_zero [snow_row\<lparr>weather_condition := PStr ''Clear''\<rparr>] 1 0 0 (1 / 10) state_zero = Inr (t3, s3)"
    "road_condition (t3 ! 0) \<noteq> PNone"
    using one_row_run [OF order_refl, of lib_zero "snow_row\<lparr>weather_condition := PStr ''Clear''\<rparr>" "1 / 10" state_zero]
    by blast
  have dry: "road_condition (t3 ! 0) = PStr ''Damaged'' \<or> road_condition (t3 ! 0) = PStr ''Dry''"
    using road_condition_forced [OF r3(1) _ r3(2)] by simp
  have e: "weather_condition ([snow_row] ! 0) = PStr ''Snow''" by (simp add: snow_row_def)
  show ?thesis
    unfolding r2(1) r3(1)
    using half_traffic_dataset a e s wet dry by (intro conjI) simp_all
qed

section \<open>C9: the traffic visibility\<close>

lemma traffic_row_visibility_cases:
  assumes "v = traffic_row.visibility_m (fst (generate_traffic_row lib nr orat w i g))"
    and "v \<noteq> PNone" and "\<not> in_outlier_band 50000 120000 v"
  shows "\<exists>noise. - 500 \<le> noise \<and> noise \<le> 500 \<and>
     v = (case weather_row.visibility_m w of
          PInt x \<Rightarrow> PInt (max 0 (x + noise))
        | PFloat y \<Rightarrow> PInt (max 0 (py_trunc (y + of_int noise)))
        | PNaN \<Rightarrow> PInt 10000
        | PNone \<Rightarrow> PInt 10000
        | PStr s \<Rightarrow> PInt 10000)"
proof -
  obtain g1 g2 g3 where v: "v = fst (maybe_null nr (fst (with_outliers orat
       (fst (get_traffic_visibility (weather_row.visibility_m w) g1)) 50000 120000 g2)) g3)"
    using traffic_row_visibility [of lib nr orat w i g] assms(1) by auto
  let ?d = "fst (get_traffic_visibility (weather_row.visibility_m w) g1)"
  let ?o = "fst (with_outliers orat ?d 50000 120000 g2)"
  have "v = ?o" using v assms(2) maybe_null_cases [of nr ?o g3] by auto
  moreover have "?o = ?d \<or> in_outlier_band 50000 120000 ?o"
    using with_outliers_casesD [of orat ?d 50000 120000 g2 ?o "snd (with_outliers orat ?d 50000 120000 g2)"]
    by simp
  ultimately have "v = ?d" using assms(3) by auto
  then show ?thesis
    using get_traffic_visibility_cases [of "weather_row.visibility_m w" g1] by simp
qed

text \<open>
  C9. For every index \<open>j\<close> of the weather table whose traffic visibility was neither
  nulled nor replaced by an outlier of \<open>with_outliers\<close>: the traffic visibility is the
  weather visibility plus an integer noise in \<open>[-500, 500]\<close>, truncated to an integer and
  floored at zero; when the weather visibility is a string, null or NaN it is the default
  10000. So a weather visibility of 5000 gives a traffic visibility within
  \<open>[4500, 5500]\<close>.
\<close>

theorem traffic_visibility_derivation:
  assumes "generate_traffic_dataset lib W n d nr orat st = Inr (tbl, st1)" and "j < length W"
    and "v = traffic_row.visibility_m (tbl ! j)"
    and "v \<noteq> PNone" and "\<not> in_outlier_band 50000 120000 v"
  shows "(weather_row.visibility_m (W ! j) = PInt x \<longrightarrow>
            (\<exists>noise. - 500 \<le> noise \<and> noise \<le> 500 \<and> v = PInt (max 0 (x + noise)))) \<and>
         (weather_row.visibility_m (W ! j) = PFloat y \<longrightarrow>
            (\<exists>noise. - 500 \<le> noise \<and> noise \<le> 500 \<and> v = PInt (max 0 (py_trunc (y + of_int noise))))) \<and>
         (weather_row.visibility_m (W ! j) = PNone \<or> weather_row.visibility_m (W ! j) = PNaN \<or>
          weather_row.visibility_m (W ! j) = PStr s \<longrightarrow> v = PInt 10000) \<and>
         (weather_row.visibility_m (W ! j) = PInt 5000 \<longrightarrow>
            (\<exists>m. v = PInt m \<and> 4500 \<le> m \<and> m \<le> 5500))"
proof -
  obtain g1 where row: "tbl ! j = fst (generate_traffic_row lib nr orat (W ! j) j g1)"
    using traffic_dataset_nth [OF assms(1,2)] by blast
  obtain noise where noise: "- 500 \<le> noise" "noise \<le> 500"
    and v: "v = (case weather_row.visibility_m (W ! j) of
          PInt x \<Rightarrow> PInt (max 0 (x + noise))
        | PFloat y \<Rightarrow> PInt (max 0 (py_trunc (y + of_int noise)))
        | PNaN \<Rightarrow> PInt 10000
        | PNone \<Rightarrow> PInt 10000
        | PStr s \<Rightarrow> PInt 10000)"
    using traffic_row_visibility_cases [of v lib nr orat "W ! j" j g1] assms(3,4,5) row by auto
  have five: "\<exists>m. v = PInt m \<and> 4500 \<le> m \<and> m \<le> 5500"
    if "weather_row.visibility_m (W ! j) = PInt 5000"
    using that v noise by (intro exI [of _ "max 0 (5000 + noise)"]) simp
  show ?thesis
    using v noise five by auto
qed

theorem traffic_visibility_derivation_witness:
  "generate_traffic_dataset lib_half [snow_row] 1 0 (1 / 10) (1 / 10) state_zero =
     Inr ([row_half], \<lparr>py_random = Rng (\<lambda>i. 4503599627370496) 19,
                        np_random = Rng (\<lambda>i. 4503599627370496) 0\<rparr>) \<and>
   0 < length [snow_row] \<and> PInt 5153 = traffic_row.visibility_m ([row_half] ! 0) \<and>
   PInt 5153 \<noteq> PNone \<and> \<not> in_outlier_band 50000 120000 (PInt 5153) \<and>
   weather_row.visibility_m ([snow_row] ! 0) = PInt 5000 \<and>
   (\<exists>m. PInt 5153 = PInt m \<and> 4500 \<le> m \<and> m \<le> 5500) \<and>
   \<not> isl (generate_traffic_dataset lib_zero
       [snow_row\<lparr>weather_row.visibility_m := PStr ''unknown''\<rparr>] 1 0 0 0 state_zero) \<and>
   traffic_row.visibility_m (fst (projr (generate_traffic_dataset lib_zero
       [snow_row\<lparr>weather_row.visibility_m := PStr ''unknown''\<rparr>] 1 0 0 0 state_zero)) ! 0) = PInt 10000 \<and>
   \<not> isl (generate_traffic_dataset lib_zero
       [snow_row\<lparr>weather_row.visibility_m := PFloat (10001 / 2)\<rparr>] 1 0 0 0 state_zero) \<and>
   (\<exists>noise. - 500 \<le> noise \<and> noise \<le> 500 \<and>
      traffic_row.visibility_m (fst (projr (generate_traffic_dataset lib_zero
         [snow_row\<lparr>weather_row.visibility_m := PFloat (10001 / 2)\<rparr>] 1 0 0 0 state_zero)) ! 0) =
        PInt (max 0 (py_trunc (10001 / 2 + of_int noise))))"
proof -
  have a: "PInt 5153 = traffic_row.visibility_m ([row_half] ! 0)" by (simp add: row_half_def)
  have b: "PInt 5153 \<noteq> PNone" by simp
  have c: "\<not> in_outlier_band 50000 120000 (PInt 5153)" by simp
  have e: "weather_row.visibility_m ([snow_row] ! 0) = PInt 5000" by (simp add: snow_row_def)
  have first: "\<exists>m. PInt 5153 = PInt m \<and> 4500 \<le> m \<and> m \<le> 5500"
    using traffic_visibility_derivation [OF half_traffic_dataset _ a b c, of 0 5000] e by simp
  obtain t2 s2 m2 where r2:
    "generate_traffic_dataset lib_zero [snow_row\<lparr>weather_row.visibility_m := PStr ''unknown''\<rparr>] 1 0 0 0 state_zero
       = Inr (t2, s2)"
    "traffic_row.visibility_m (t2 ! 0) \<noteq> PNone" "traffic_row.visibility_m (t2 ! 0) = PInt m2"
    using one_row_run [OF order_refl, of lib_zero
            "snow_row\<lparr>weather_row.visibility_m := PStr ''unknown''\<rparr>" 0 state_zero]
    by auto
  have nb2: "\<not> in_outlier_band 50000 120000 (traffic_row.visibility_m (t2 ! 0))" by (simp add: r2(3))
  have second: "traffic_row.visibility_m (t2 ! 0) = PInt 10000"
    using traffic_visibility_derivation [OF r2(1) _ refl r2(2) nb2, where s = "''unknown''"] by simp
  obtain t3 s3 m3 where r3:
    "generate_traffic_dataset lib_zero [snow_row\<lparr>weather_row.visibility_m := PFloat (10001 / 2)\<rparr>] 1 0 0 0 state_zero
       = Inr (t3, s3)"
    "traffic_row.visibility_m (t3 ! 0) \<noteq> PNone" "traffic_row.visibility_m (t3 ! 0) = PInt m3"
    using one_row_run [OF order_refl, of lib_zero
            "snow_row\<lparr>weather_row.visibility_m := PFloat (10001 / 2)\<rparr>" 0 state_zero]
    by auto
  have nb3: "\<not> in_outlier_band 50000 120000 (traffic_row.visibility_m (t3 ! 0))" by (simp add: r3(3))
  have third: "\<exists>noise. - 500 \<le> noise \<and> noise \<le> 500 \<and>
      traffic_row.visibility_m (t3 ! 0) = PInt (max 0 (py_trunc (10001 / 2 + of_int noise)))"
    using traffic_visibility_derivation [OF r3(1) _ refl r3(2) nb3, where y = "10001 / 2"] by simp
  show ?thesis
    unfolding r2(1) r3(1)
    using half_traffic_dataset e first second third by (intro conjI) (simp_all add: row_half_def)
qed

text \<open>
  The claim as stated, absent nulling only, fails: with no nulling and the default
  outlier ratio 0.1, the run whose draws are all zero turns the weather visibility 5000
  into the outlier 49975. (By \<open>traffic_row_outliers\<close> every traffic visibility is such
  an outlier, for every random source, once the outlier ratio is 1 and nothing is
  nulled.)
\<close>

theorem traffic_visibility_derivation_counterexample:
  "generate_traffic_dataset lib_zero [snow_row] 1 0 0 (1 / 10) state_zero =
     Inr ([row_zero], \<lparr>py_random = Rng (\<lambda>i. 0) 28, np_random = Rng (\<lambda>i. 0) 0\<rparr>) \<and>
   weather_row.visibility_m snow_row = PInt 5000 \<and>
   traffic_row.visibility_m row_zero = PFloat 49975"
  using zero_traffic_dataset by (simp add: snow_row_def row_zero_def)

section \<open>C10: the congestion level is total\<close>

text \<open>
  C10. \<open>determine_congestion\<close> returns one of High, Medium and Low for every pair of
  cells, null or not, and never raises. When \<open>vehicle_count\<close> is null the first
  comparison fails and the result is Low; when \<open>avg_speed\<close> is null and the count is
  not above 3500 the comparison of the speed fails and the result is Low; in general
  the result is Low whenever a comparison that is evaluated raises.
\<close>

theorem determine_congestion_total:
  "determine_congestion vc sp \<in> {PStr ''High'', PStr ''Medium'', PStr ''Low''} \<and>
   (vc = PNone \<longrightarrow> determine_congestion vc sp = PStr ''Low'') \<and>
   (sp = PNone \<and> py_gt vc 3500 = Inr False \<longrightarrow> determine_congestion vc sp = PStr ''Low'') \<and>
   (isl (py_gt vc 3500) \<or> (py_gt vc 3500 = Inr False \<and> isl (py_lt sp 15))
      \<longrightarrow> determine_congestion vc sp = PStr ''Low'')"
  by (cases vc; cases sp) (auto simp: determine_congestion_def bind_res_def)

theorem determine_congestion_total_witness:
  "determine_congestion PNone (PFloat 40) = PStr ''Low'' \<and>
   py_gt (PInt 1000) 3500 = Inr False \<and>
   determine_congestion (PInt 1000) PNone = PStr ''Low'' \<and>
   isl (py_lt PNone 15) \<and>
   determine_congestion PNone PNone \<in> {PStr ''High'', PStr ''Medium'', PStr ''Low''}"
  using determine_congestion_total [of PNone "PFloat 40"]
        determine_congestion_total [of "PInt 1000" PNone]
        determine_congestion_total [of PNone PNone]
  by simp

end
